theory Spec2Isabelle
  imports Complex_Main
begin

section \<open>Browser storage and JavaScript values\<close>

text \<open>
  \<^verbatim>\<open>localStorage\<close> is a map from keys to strings. \<^verbatim>\<open>getItem\<close> answers \<^verbatim>\<open>null\<close>
  (here \<open>None\<close>) for a key that is not stored.
\<close>

type_synonym storage = "string \<rightharpoonup> string"

definition getItem :: "storage \<Rightarrow> string \<Rightarrow> string option" where
  "getItem ls k = ls k"

definition setItem :: "storage \<Rightarrow> string \<Rightarrow> string \<Rightarrow> storage" where
  "setItem ls k v = ls(k \<mapsto> v)"

definition removeItem :: "storage \<Rightarrow> string \<Rightarrow> storage" where
  "removeItem ls k = ls(k := None)"

text \<open>
  The conditions \<^verbatim>\<open>if (token)\<close>, \<^verbatim>\<open>!token\<close> and \<^verbatim>\<open>!!token\<close> test a value that is a
  string, \<^verbatim>\<open>null\<close> or \<^verbatim>\<open>undefined\<close>: it counts as true exactly when it is a string
  that is not empty.
\<close>

definition truthy :: "string option \<Rightarrow> bool" where
  "truthy v = (case v of None \<Rightarrow> False | Some s \<Rightarrow> s \<noteq> [])"

text \<open>
  A value placed in a template literal or handed to \<^verbatim>\<open>setItem\<close> is turned into a string;
  \<^verbatim>\<open>undefined\<close> becomes the text \<^verbatim>\<open>undefined\<close>.
\<close>

definition js_string_of :: "string option \<Rightarrow> string" where
  "js_string_of v = (case v of None \<Rightarrow> ''undefined'' | Some s \<Rightarrow> s)"

text \<open>The template literal \<^verbatim>\<open>`Bearer ${token}`\<close>.\<close>

definition bearer :: "string option \<Rightarrow> string" where
  "bearer v = ''Bearer '' @ js_string_of v"

section \<open>types/index.ts\<close>

record Product =
  product_id :: string
  title :: string
  price :: real
  currency :: string
  platform :: string
  imageUrl :: string
  sourceLink :: string

text \<open>
  The fields of \<^verbatim>\<open>User\<close> are \<^verbatim>\<open>email\<close>, \<^verbatim>\<open>token\<close> and \<^verbatim>\<open>isAuthenticated\<close>; the last
  two carry a prefix here because \<^verbatim>\<open>AuthState\<close> has fields of the same names.
\<close>

record User =
  email :: string
  user_token :: string
  user_isAuthenticated :: bool

record 'u AuthState =
  user :: "'u option"
  token :: "string option"
  isAuthenticated :: bool

record WishlistState =
  items :: "Product list"

section \<open>utils/storage.ts\<close>

definition TOKEN_KEY :: string where
  "TOKEN_KEY = ''token''"

definition USER_KEY :: string where
  "USER_KEY = ''auth_user''"

text \<open>
  \<^verbatim>\<open>JSON.stringify\<close> and \<^verbatim>\<open>JSON.parse\<close> belong to the platform, so they are parameters:
  \<open>stringify\<close> gives the text of a user object, and \<open>parse\<close> gives \<open>None\<close> where
  \<^verbatim>\<open>JSON.parse\<close> throws.
\<close>

definition saveAuthData :: "('u \<Rightarrow> string) \<Rightarrow> storage \<Rightarrow> string \<Rightarrow> 'u \<Rightarrow> storage" where
  "saveAuthData stringify ls tok usr =
     setItem (setItem ls TOKEN_KEY tok) USER_KEY (stringify usr)"

definition clearAuthData :: "storage \<Rightarrow> storage" where
  "clearAuthData ls = removeItem (removeItem ls TOKEN_KEY) USER_KEY"

text \<open>The result is the storage afterwards and the value returned (\<open>None\<close> for \<^verbatim>\<open>null\<close>).\<close>

definition getStoredAuth ::
  "(string \<Rightarrow> 'u option) \<Rightarrow> storage \<Rightarrow> storage \<times> (string \<times> 'u) option" where
  "getStoredAuth parse ls =
     (let tok = getItem ls TOKEN_KEY;
          userStr = getItem ls USER_KEY
      in if \<not> truthy tok \<or> \<not> truthy userStr then (ls, None)
         else (case (tok, userStr) of
                 (Some t, Some s) \<Rightarrow>
                   (case parse s of
                      Some usr \<Rightarrow> (ls, Some (t, usr))
                    | None \<Rightarrow> (clearAuthData ls, None))
               | _ \<Rightarrow> (ls, None)))"

section \<open>store/authSlice.ts\<close>

definition initialState :: "'u AuthState" where
  "initialState = \<lparr>user = None, token = None, isAuthenticated = False\<rparr>"

text \<open>
  The payload's token is a string by its type; a caller that passes \<^verbatim>\<open>undefined\<close> at run
  time is covered by \<open>None\<close>.
\<close>

definition setCredentials :: "'u AuthState \<Rightarrow> 'u option \<Rightarrow> string option \<Rightarrow> 'u AuthState" where
  "setCredentials st usr tok =
     st\<lparr>user := usr, token := tok, isAuthenticated := truthy tok\<rparr>"

text \<open>The \<^verbatim>\<open>logout\<close> reducer clears the stored credentials before it resets the state.\<close>

definition logout :: "storage \<times> 'u AuthState \<Rightarrow> storage \<times> 'u AuthState" where
  "logout p =
     (case p of (ls, st) \<Rightarrow>
        (clearAuthData ls, st\<lparr>user := None, token := None, isAuthenticated := False\<rparr>))"

section \<open>store/wishlistSlice.ts\<close>

definition wishlist_initialState :: WishlistState where
  "wishlist_initialState = \<lparr>items = []\<rparr>"

definition setWishlist :: "WishlistState \<Rightarrow> Product list \<Rightarrow> WishlistState" where
  "setWishlist st payload = st\<lparr>items := payload\<rparr>"

definition addToWishlist :: "WishlistState \<Rightarrow> Product \<Rightarrow> WishlistState" where
  "addToWishlist st payload =
     (case find (\<lambda>item. product_id item = product_id payload) (items st) of
        None \<Rightarrow> st\<lparr>items := items st @ [payload]\<rparr>
      | Some _ \<Rightarrow> st)"

definition removeFromWishlist :: "WishlistState \<Rightarrow> string \<Rightarrow> WishlistState" where
  "removeFromWishlist st payload =
     st\<lparr>items := filter (\<lambda>item. product_id item \<noteq> payload) (items st)\<rparr>"

definition clearWishlist :: "WishlistState \<Rightarrow> WishlistState" where
  "clearWishlist st = st\<lparr>items := []\<rparr>"

section \<open>utils/api.ts: requests, responses and the network\<close>

text \<open>
  A request configuration. \<open>http_method\<close> is the field \<^verbatim>\<open>method\<close>, \<open>body\<close> is the JSON
  object sent as \<^verbatim>\<open>data\<close> (\<open>[]\<close> is \<^verbatim>\<open>{}\<close>), and
  \<open>retry\<close> is the marker \<^verbatim>\<open>_retry\<close>, which a configuration built by a caller does not
  carry (\<open>False\<close>).
\<close>

record config =
  url :: string
  http_method :: string
  body :: "(string \<times> string) list"
  headers :: "string \<rightharpoonup> string"
  retry :: bool

text \<open>
  \<^verbatim>\<open>response.data\<close> is taken to be a JSON object, of which the client reads four
  fields; a field that is missing (\<^verbatim>\<open>undefined\<close>) is \<open>None\<close>.
\<close>

record payload =
  access_token :: "string option"
  refresh_token :: "string option"
  data_user :: "User option"
  data_error :: "string option"

record response =
  status :: nat
  data :: payload

text \<open>
  What a rejected promise carries: an \<^verbatim>\<open>AxiosError\<close> with its \<^verbatim>\<open>config\<close>, its
  \<^verbatim>\<open>response\<close> (absent when the network gave no answer) and its \<^verbatim>\<open>message\<close>, or a plain
  \<^verbatim>\<open>Error\<close> with its message.
\<close>

datatype failure =
    AxiosError config "response option" string
  | Error string

text \<open>
  Requests leave either through the instance \<^verbatim>\<open>api\<close>, whose URLs are relative to its
  base URL, or through the global \<^verbatim>\<open>axios\<close>, which has no interceptors.
\<close>

datatype channel = ViaApi | ViaAxios

record exchange =
  via :: channel
  request :: config

datatype net_result = Answer response | NoAnswer string

text \<open>
  The backend is any function from the requests sent so far and the request at hand
  to an answer. The environment also fixes the build variable \<^verbatim>\<open>VITE_API_URL\<close>.
\<close>

record env =
  VITE_API_URL :: "string option"
  server :: "exchange list \<Rightarrow> exchange \<Rightarrow> net_result"

text \<open>\<^verbatim>\<open>a || b\<close> on a string that may be missing.\<close>

definition js_or :: "string option \<Rightarrow> string \<Rightarrow> string" where
  "js_or v d = (if truthy v then js_string_of v else d)"

definition API_URL :: "env \<Rightarrow> string" where
  "API_URL E = js_or (VITE_API_URL E) ''/api''"

text \<open>
  The state the client works on: the browser's storage, the auth slice of the Redux
  store, \<^verbatim>\<open>api.defaults.headers.common\<close>, the toasts shown and the requests put on the
  network, oldest first.
\<close>

record world =
  localStorage :: storage
  auth :: "User AuthState"
  defaults_common :: "string \<rightharpoonup> string"
  toasts :: "string list"
  wire :: "exchange list"

text \<open>The decimal digits of a status code, for the message axios gives a rejection.\<close>

function string_of_nat :: "nat \<Rightarrow> string" where
  "string_of_nat n =
     (if n < 10 then [char_of (48 + n)]
      else string_of_nat (n div 10) @ [char_of (48 + n mod 10)])"
  by pat_completeness auto
termination
  by (relation "measure (\<lambda>n. n)") auto

definition status_message :: "nat \<Rightarrow> string" where
  "status_message n = ''Request failed with status code '' @ string_of_nat n"

text \<open>
  How axios settles a promise: it resolves for a status from 200 to 299 and rejects
  otherwise, and it rejects when the network gave no answer.
\<close>

definition settle :: "config \<Rightarrow> net_result \<Rightarrow> failure + response" where
  "settle cfg a =
     (case a of
        NoAnswer msg \<Rightarrow> Inl (AxiosError cfg None msg)
      | Answer r \<Rightarrow>
          if 200 \<le> status r \<and> status r < 300 then Inr r
          else Inl (AxiosError cfg (Some r) (status_message (status r))))"

text \<open>Sending a request records it on the wire and settles on the backend's answer.\<close>

definition dispatch :: "env \<Rightarrow> channel \<Rightarrow> world \<Rightarrow> config \<Rightarrow> world \<times> (failure + response)" where
  "dispatch E ch w cfg =
     (let x = \<lparr>via = ch, request = cfg\<rparr>
      in (w\<lparr>wire := wire w @ [x]\<rparr>, settle cfg (server E (wire w) x)))"

text \<open>\<^verbatim>\<open>axios.post(url, data, {headers})\<close> on the global instance.\<close>

definition axios_post ::
  "env \<Rightarrow> world \<Rightarrow> string \<Rightarrow> (string \<times> string) list \<Rightarrow> (string \<rightharpoonup> string)
     \<Rightarrow> world \<times> (failure + response)" where
  "axios_post E w u d hs =
     dispatch E ViaAxios w \<lparr>url = u, http_method = ''post'', body = d, headers = hs, retry = False\<rparr>"

definition toast_error :: "world \<Rightarrow> string \<Rightarrow> world" where
  "toast_error w msg = w\<lparr>toasts := toasts w @ [msg]\<rparr>"

text \<open>\<^verbatim>\<open>store.dispatch(logout())\<close> on the world.\<close>

definition dispatch_logout :: "world \<Rightarrow> world" where
  "dispatch_logout w =
     (case logout (localStorage w, auth w) of
        (ls, st) \<Rightarrow> w\<lparr>localStorage := ls, auth := st\<rparr>)"

definition request_interceptor :: "storage \<Rightarrow> config \<Rightarrow> config" where
  "request_interceptor ls cfg =
     (let tok = getItem ls ''token''
      in if truthy tok
         then cfg\<lparr>headers := (headers cfg)(''Authorization'' \<mapsto> bearer tok)\<rparr>
         else cfg)"

text \<open>
  The message the \<^verbatim>\<open>catch\<close> block of the refresh shows. Its last branch, for a thrown
  value that is not an \<^verbatim>\<open>Error\<close>, has no counterpart here: every failure is one.
\<close>

fun refresh_toast :: "failure \<Rightarrow> string" where
  "refresh_toast (AxiosError cfg (Some r) msg) = js_or (data_error (data r)) ''Token refresh failed.''"
| "refresh_toast (AxiosError cfg None msg) = msg"
| "refresh_toast (Error msg) = msg"

text \<open>Whether the request of a failure carries the retry marker (no request: nothing to retry).\<close>

fun failure_retry :: "failure \<Rightarrow> bool" where
  "failure_retry (AxiosError cfg resp msg) = retry cfg"
| "failure_retry (Error msg) = True"

text \<open>
  The instance's default headers are merged under the request's own before the
  request interceptor runs.
\<close>

definition merge_defaults :: "world \<Rightarrow> config \<Rightarrow> config" where
  "merge_defaults w cfg = cfg\<lparr>headers := defaults_common w ++ headers cfg\<rparr>"

text \<open>
  A call \<^verbatim>\<open>api(config)\<close>: defaults are merged, the request interceptor runs, the
  request is sent, and a rejection goes to the response interceptor's error handler
  \<open>response_rejected\<close>, which may call \<^verbatim>\<open>api\<close> again.
\<close>

function api :: "env \<Rightarrow> world \<Rightarrow> config \<Rightarrow> world \<times> (failure + response)"
  and response_rejected :: "env \<Rightarrow> world \<Rightarrow> failure \<Rightarrow> world \<times> (failure + response)" where
  "api E w cfg =
     (let cfg1 = merge_defaults w cfg;
          cfg2 = request_interceptor (localStorage w) cfg1
      in case dispatch E ViaApi w cfg2 of
           (w', Inr r) \<Rightarrow> (w', Inr r)
         | (w', Inl e) \<Rightarrow> response_rejected E w' e)"
| "response_rejected E w (Error msg) = (w, Inl (Error msg))"
| "response_rejected E w (AxiosError cfg resp msg) =
     (if map_option status resp = Some 401 \<and> \<not> retry cfg then
        let originalRequest = cfg\<lparr>retry := True\<rparr>;
            refreshToken = getItem (localStorage w) ''refresh_token''
        in if truthy refreshToken then
             (case axios_post E w (API_URL E @ ''/refresh'') []
                     [''Authorization'' \<mapsto> bearer refreshToken] of
                (w1, Inr r) \<Rightarrow>
                  let newAccessToken = access_token (data r);
                      w2 = w1\<lparr>localStorage :=
                                setItem (localStorage w1) ''token'' (js_string_of newAccessToken)\<rparr>;
                      w3 = w2\<lparr>defaults_common :=
                                (defaults_common w2)(''Authorization'' \<mapsto> bearer newAccessToken)\<rparr>
                  in api E w3
                       (originalRequest\<lparr>headers :=
                          (headers originalRequest)(''Authorization'' \<mapsto> bearer newAccessToken)\<rparr>)
              | (w1, Inl refreshError) \<Rightarrow>
                  (let w2 = toast_error w1 (refresh_toast refreshError);
                       w3 = dispatch_logout w2;
                       w4 = w3\<lparr>localStorage := clearAuthData (localStorage w3)\<rparr>
                   in (w4, Inl refreshError)))
           else
             (let w1 = toast_error w ''Session expired. Please log in again.'';
                  w2 = dispatch_logout w1;
                  w3 = w2\<lparr>localStorage := clearAuthData (localStorage w2)\<rparr>
              in (w3, Inl (AxiosError originalRequest resp msg)))
      else (w, Inl (AxiosError cfg resp msg)))"
  by pat_completeness auto
termination
  by (relation "measure (\<lambda>x. case x of
            Inl (E, w, cfg) \<Rightarrow> (if retry cfg then 1 else 3)
          | Inr (E, w, e) \<Rightarrow> (if failure_retry e then 0 else 2))")
    (auto simp: dispatch_def settle_def Let_def request_interceptor_def merge_defaults_def
          split: net_result.splits if_splits)

text \<open>\<^verbatim>\<open>api.post(url, data, {headers})\<close>.\<close>

definition api_post ::
  "env \<Rightarrow> world \<Rightarrow> string \<Rightarrow> (string \<times> string) list \<Rightarrow> (string \<rightharpoonup> string)
     \<Rightarrow> world \<times> (failure + response)" where
  "api_post E w u d hs =
     api E w \<lparr>url = u, http_method = ''post'', body = d, headers = hs, retry = False\<rparr>"

text \<open>
  The \<^verbatim>\<open>catch\<close> block shared by the domain operations: an \<^verbatim>\<open>AxiosError\<close> becomes a new
  \<^verbatim>\<open>Error\<close> whose message is the body's \<^verbatim>\<open>error\<close> field, else the error's message,
  else the operation's fallback; any other \<^verbatim>\<open>Error\<close> is thrown again.
\<close>

fun rethrow :: "failure \<Rightarrow> string \<Rightarrow> failure" where
  "rethrow (AxiosError cfg resp msg) fallback =
     Error (js_or (case resp of None \<Rightarrow> None | Some r \<Rightarrow> data_error (data r))
              (js_or (Some msg) fallback))"
| "rethrow (Error msg) fallback = Error msg"

definition login :: "env \<Rightarrow> world \<Rightarrow> string \<Rightarrow> string \<Rightarrow> world \<times> (failure + payload)" where
  "login E w mail password =
     (case api_post E w ''/login'' [(''email'', mail), (''password'', password)] Map.empty of
        (w', Inr r) \<Rightarrow> (w', Inr (data r))
      | (w', Inl e) \<Rightarrow> (w', Inl (rethrow e ''Login failed.'')))"

definition signup ::
  "env \<Rightarrow> world \<Rightarrow> string \<Rightarrow> string \<Rightarrow> string \<Rightarrow> world \<times> (failure + payload)" where
  "signup E w username mail password =
     (case api_post E w ''/register''
             [(''username'', username), (''email'', mail), (''password'', password)] Map.empty of
        (w', Inr r) \<Rightarrow> (w', Inr (data r))
      | (w', Inl e) \<Rightarrow> (w', Inl (rethrow e ''Signup failed.'')))"

definition refreshAccessToken :: "env \<Rightarrow> world \<Rightarrow> world \<times> (failure + payload)" where
  "refreshAccessToken E w =
     (let refreshToken = getItem (localStorage w) ''refresh_token''
      in if \<not> truthy refreshToken then (w, Inl (Error ''No refresh token available.''))
         else (case api_post E w ''/refresh'' []
                      [''Authorization'' \<mapsto> bearer refreshToken] of
                 (w', Inr r) \<Rightarrow> (w', Inr (data r))
               | (w', Inl e) \<Rightarrow> (w', Inl (rethrow e ''Token refresh failed.''))))"

section \<open>components/AuthForm.tsx, hooks/useAuth.ts, components/Header.tsx\<close>

datatype form_type = LoginForm | SignupForm

text \<open>\<^verbatim>\<open>JSON.stringify\<close> of a value that may be \<^verbatim>\<open>undefined\<close>, as \<^verbatim>\<open>setItem\<close> stores it.\<close>

definition stringify_opt :: "('u \<Rightarrow> string) \<Rightarrow> 'u option \<Rightarrow> string" where
  "stringify_opt stringify v = (case v of None \<Rightarrow> ''undefined'' | Some u \<Rightarrow> stringify u)"

fun failure_text :: "failure \<Rightarrow> string" where
  "failure_text (AxiosError cfg resp msg) = msg"
| "failure_text (Error msg) = msg"

text \<open>
  \<^verbatim>\<open>handleSubmit\<close>: the result is the world afterwards and the text given to
  \<^verbatim>\<open>setError\<close> (empty on success). Navigation and the loading flag are left out.
\<close>

definition handleSubmit ::
  "(User \<Rightarrow> string) \<Rightarrow> env \<Rightarrow> world \<Rightarrow> form_type \<Rightarrow> string \<Rightarrow> string \<Rightarrow> string
     \<Rightarrow> world \<times> string" where
  "handleSubmit stringify E w ty username mail password =
     (case (case ty of
              LoginForm \<Rightarrow> login E w mail password
            | SignupForm \<Rightarrow> signup E w username mail password) of
        (w', Inr d) \<Rightarrow>
          (let ls = saveAuthData (stringify_opt stringify) (localStorage w')
                      (js_string_of (access_token d)) (data_user d);
               st = setCredentials (auth w') (data_user d) (access_token d)
           in (w'\<lparr>localStorage := ls, auth := st\<rparr>, []))
      | (w', Inl e) \<Rightarrow> (w', failure_text e))"

text \<open>One firing of the interval that \<^verbatim>\<open>useAuth\<close> installs.\<close>

definition useAuth_tick :: "env \<Rightarrow> world \<Rightarrow> world" where
  "useAuth_tick E w =
     (if isAuthenticated (auth w) \<and> truthy (token (auth w)) then
        (case refreshAccessToken E w of
           (w', Inr d) \<Rightarrow>
             w'\<lparr>localStorage := setItem (localStorage w') ''token'' (js_string_of (access_token d)),
                auth := setCredentials (auth w') (user (auth w)) (access_token d)\<rparr>
         | (w', Inl e) \<Rightarrow>
             (let w1 = dispatch_logout w';
                  w2 = w1\<lparr>localStorage := clearAuthData (localStorage w1)\<rparr>
              in toast_error w2 ''Session expired. Please log in again.''))
      else w)"

text \<open>\<^verbatim>\<open>handleLogout\<close> of the header, as far as the session goes.\<close>

definition handleLogout :: "world \<Rightarrow> world" where
  "handleLogout w = dispatch_logout w"

section \<open>Executions of the client\<close>

text \<open>
  Everything in the client that touches the browser's storage, as one operation each;
  \<open>Call\<close> stands for any domain operation's request through \<^verbatim>\<open>api\<close>.
\<close>

datatype operation =
    Call config
  | Submit form_type string string string
  | Tick
  | HandleLogout
  | RefreshAccessToken
  | SaveAuthData string User
  | ClearAuthData
  | GetStoredAuth

fun step ::
  "(User \<Rightarrow> string) \<Rightarrow> (string \<Rightarrow> User option) \<Rightarrow> env \<Rightarrow> world \<Rightarrow> operation \<Rightarrow> world" where
  "step S P E w (Call cfg) = fst (api E w cfg)"
| "step S P E w (Submit ty username mail password) =
     fst (handleSubmit S E w ty username mail password)"
| "step S P E w Tick = useAuth_tick E w"
| "step S P E w HandleLogout = handleLogout w"
| "step S P E w RefreshAccessToken = fst (refreshAccessToken E w)"
| "step S P E w (SaveAuthData tok usr) =
     w\<lparr>localStorage := saveAuthData S (localStorage w) tok usr\<rparr>"
| "step S P E w ClearAuthData = w\<lparr>localStorage := clearAuthData (localStorage w)\<rparr>"
| "step S P E w GetStoredAuth = w\<lparr>localStorage := fst (getStoredAuth P (localStorage w))\<rparr>"

fun run ::
  "(User \<Rightarrow> string) \<Rightarrow> (string \<Rightarrow> User option) \<Rightarrow> env \<Rightarrow> world \<Rightarrow> operation list \<Rightarrow> world" where
  "run S P E w [] = w"
| "run S P E w (x # xs) = run S P E (step S P E w x) xs"

section \<open>Observations used in the statements\<close>

text \<open>The request as \<^verbatim>\<open>api\<close> puts it on the wire.\<close>

definition outgoing :: "world \<Rightarrow> config \<Rightarrow> config" where
  "outgoing w cfg = request_interceptor (localStorage w) (merge_defaults w cfg)"

text \<open>The refresh exchange for a refresh token, as the response interceptor sends it.\<close>

definition refresh_request :: "env \<Rightarrow> string \<Rightarrow> config" where
  "refresh_request E rt =
     \<lparr>url = API_URL E @ ''/refresh'', http_method = ''post'', body = [],
      headers = [''Authorization'' \<mapsto> bearer (Some rt)], retry = False\<rparr>"

text \<open>
  The exchanges of one call \<^verbatim>\<open>api(config)\<close> that runs the refresh: the request as first
  sent, the refresh exchange, and the request sent again with the retry marker and the
  new access token \<open>nt\<close> (the \<^verbatim>\<open>access_token\<close> field of the refresh answer).
\<close>

definition first_exchange :: "world \<Rightarrow> config \<Rightarrow> exchange" where
  "first_exchange w cfg = \<lparr>via = ViaApi, request = outgoing w cfg\<rparr>"

definition refresh_exchange :: "env \<Rightarrow> string \<Rightarrow> exchange" where
  "refresh_exchange E rt = \<lparr>via = ViaAxios, request = refresh_request E rt\<rparr>"

definition retry_request :: "world \<Rightarrow> config \<Rightarrow> string option \<Rightarrow> config" where
  "retry_request w cfg nt =
     (outgoing w cfg)\<lparr>retry := True,
        headers := (headers (outgoing w cfg))(''Authorization'' \<mapsto> bearer nt)\<rparr>"

definition retry_exchange :: "world \<Rightarrow> config \<Rightarrow> string option \<Rightarrow> exchange" where
  "retry_exchange w cfg nt = \<lparr>via = ViaApi, request = retry_request w cfg nt\<rparr>"

definition refresh_attempts :: "exchange list \<Rightarrow> exchange list" where
  "refresh_attempts xs = filter (\<lambda>x. via x = ViaAxios) xs"

definition api_sends :: "exchange list \<Rightarrow> exchange list" where
  "api_sends xs = filter (\<lambda>x. via x = ViaApi) xs"

text \<open>
  The world after a forced logout that shows the message \<open>msg\<close>: the toast is added,
  both stored keys are removed and the auth slice is reset.
\<close>

definition end_session :: "world \<Rightarrow> string \<Rightarrow> world" where
  "end_session w msg =
     w\<lparr>toasts := toasts w @ [msg],
       localStorage := clearAuthData (localStorage w),
       auth := \<lparr>user = None, token = None, isAuthenticated = False\<rparr>\<rparr>"

text \<open>The session is cleared: the auth slice is reset and both stored keys are gone.\<close>

definition session_cleared :: "world \<Rightarrow> bool" where
  "session_cleared w =
     (auth w = \<lparr>user = None, token = None, isAuthenticated = False\<rparr>
      \<and> getItem (localStorage w) TOKEN_KEY = None
      \<and> getItem (localStorage w) USER_KEY = None)"

text \<open>The wishlist mirror holds at most one entry for each product id.\<close>

definition unique_ids :: "WishlistState \<Rightarrow> bool" where
  "unique_ids st = distinct (map product_id (items st))"

text \<open>
  How one world follows from another: the wire grew by \<open>new\<close>, no refresh exchange is
  among the new ones unless a refresh token was stored, and only the two keys of
  \<^verbatim>\<open>storage.ts\<close> can differ in the storage.
\<close>

definition extends :: "world \<Rightarrow> world \<Rightarrow> exchange list \<Rightarrow> bool" where
  "extends w w' new =
     (wire w' = wire w @ new
      \<and> (\<not> truthy (getItem (localStorage w) ''refresh_token'') \<longrightarrow> refresh_attempts new = [])
      \<and> (\<forall>k. k \<noteq> TOKEN_KEY \<and> k \<noteq> USER_KEY \<longrightarrow>
            getItem (localStorage w') k = getItem (localStorage w) k))"

section \<open>Concrete values for the examples\<close>

definition demo_user :: User where
  "demo_user = \<lparr>email = ''a@b.com'', user_token = ''abc'', user_isAuthenticated = True\<rparr>"

text \<open>
  A stand-in for the platform's serialiser and parser in the examples: the parser knows
  the one text the examples store and throws on every other.
\<close>

definition demo_stringify :: "User \<Rightarrow> string" where
  "demo_stringify u = ''{email:'' @ email u @ ''}''"

definition demo_parse :: "string \<Rightarrow> User option" where
  "demo_parse s = (if s = ''{email:a@b.com}'' then Some demo_user else None)"

definition demo_product :: Product where
  "demo_product = \<lparr>product_id = ''p1'', title = ''Lamp'', price = 10, currency = ''USD'',
     platform = ''shop'', imageUrl = ''i'', sourceLink = ''s''\<rparr>"

definition empty_payload :: payload where
  "empty_payload =
     \<lparr>access_token = None, refresh_token = None, data_user = None, data_error = None\<rparr>"

definition demo_request :: config where
  "demo_request =
     \<lparr>url = ''/wishlist-protected'', http_method = ''get'', body = [], headers = Map.empty,
      retry = False\<rparr>"

definition demo_world :: world where
  "demo_world =
     \<lparr>localStorage = [''token'' \<mapsto> ''old'', ''auth_user'' \<mapsto> ''{email:a@b.com}'',
                      ''refresh_token'' \<mapsto> ''xyz''],
      auth = \<lparr>user = Some demo_user, token = Some ''old'', isAuthenticated = True\<rparr>,
      defaults_common = Map.empty, toasts = [], wire = []\<rparr>"

definition demo_world_no_refresh :: world where
  "demo_world_no_refresh =
     \<lparr>localStorage = [''token'' \<mapsto> ''old'', ''auth_user'' \<mapsto> ''{email:a@b.com}''],
      auth = \<lparr>user = Some demo_user, token = Some ''old'', isAuthenticated = True\<rparr>,
      defaults_common = Map.empty, toasts = [], wire = []\<rparr>"

definition unauthorized :: response where
  "unauthorized = \<lparr>status = 401, data = empty_payload\<rparr>"

definition forbidden :: response where
  "forbidden = \<lparr>status = 403, data = empty_payload\<rparr>"

definition fresh_token :: response where
  "fresh_token = \<lparr>status = 200, data = empty_payload\<lparr>access_token := Some ''new''\<rparr>\<rparr>"

text \<open>
  Three backends: one answers 401 to every request through \<^verbatim>\<open>api\<close>, also to a retry,
  and grants the refresh; one answers 401 likewise and refuses the refresh with 403;
  one answers 200 to everything.
\<close>

definition env_refresh_ok :: env where
  "env_refresh_ok =
     \<lparr>VITE_API_URL = None,
      server = (\<lambda>past x. case via x of ViaAxios \<Rightarrow> Answer fresh_token
                                      | ViaApi \<Rightarrow> Answer unauthorized)\<rparr>"

definition env_refresh_denied :: env where
  "env_refresh_denied =
     \<lparr>VITE_API_URL = None,
      server = (\<lambda>past x. case via x of ViaAxios \<Rightarrow> Answer forbidden
                                      | ViaApi \<Rightarrow> Answer unauthorized)\<rparr>"

definition env_all_ok :: env where
  "env_all_ok = \<lparr>VITE_API_URL = None, server = (\<lambda>past x. Answer fresh_token)\<rparr>"

text \<open>A session: a login, a request, a firing of the refresh interval, a load, a logout.\<close>

definition demo_session :: "operation list" where
  "demo_session =
     [Submit LoginForm [] ''a@b.com'' ''secret'', Call demo_request, Tick, GetStoredAuth,
      HandleLogout]"

section \<open>Storage\<close>

lemma getItem_simps:
  "getItem (setItem ls k v) k' = (if k' = k then Some v else getItem ls k')"
  "getItem (removeItem ls k) k' = (if k' = k then None else getItem ls k')"
  by (simp_all add: getItem_def setItem_def removeItem_def)

text \<open>
  C5, as amended. \<^verbatim>\<open>getStoredAuth\<close> returns the token and the parsed user, and leaves the
  storage alone, when both keys hold a non-empty string and the user text parses. When
  both hold a non-empty string and the user text does not parse, it removes both keys
  and returns nothing. When either key is missing or holds the empty string, it returns
  nothing and leaves the storage as it is.
\<close>

theorem getStoredAuth_cases:
  "(getItem ls TOKEN_KEY = Some t \<and> t \<noteq> [] \<and> getItem ls USER_KEY = Some s \<and> s \<noteq> []
      \<and> parse s = Some usr \<longrightarrow> getStoredAuth parse ls = (ls, Some (t, usr)))
   \<and> (getItem ls TOKEN_KEY = Some t \<and> t \<noteq> [] \<and> getItem ls USER_KEY = Some s \<and> s \<noteq> []
      \<and> parse s = None \<longrightarrow>
        getStoredAuth parse ls = (clearAuthData ls, None)
        \<and> getItem (clearAuthData ls) TOKEN_KEY = None
        \<and> getItem (clearAuthData ls) USER_KEY = None)
   \<and> (\<not> truthy (getItem ls TOKEN_KEY) \<or> \<not> truthy (getItem ls USER_KEY) \<longrightarrow>
        getStoredAuth parse ls = (ls, None))"
  by (simp add: getStoredAuth_def truthy_def Let_def clearAuthData_def getItem_simps)

theorem getStoredAuth_cases_witness:
  "getStoredAuth demo_parse [TOKEN_KEY \<mapsto> ''abc'', USER_KEY \<mapsto> ''{email:a@b.com}'']
     = ([TOKEN_KEY \<mapsto> ''abc'', USER_KEY \<mapsto> ''{email:a@b.com}''], Some (''abc'', demo_user))
   \<and> getStoredAuth demo_parse [TOKEN_KEY \<mapsto> ''abc'', USER_KEY \<mapsto> ''{email''] =
       (clearAuthData [TOKEN_KEY \<mapsto> ''abc'', USER_KEY \<mapsto> ''{email''], None)
   \<and> getStoredAuth demo_parse [USER_KEY \<mapsto> ''{email:a@b.com}'']
       = ([USER_KEY \<mapsto> ''{email:a@b.com}''], None)"
  using getStoredAuth_cases [of "[TOKEN_KEY \<mapsto> ''abc'', USER_KEY \<mapsto> ''{email:a@b.com}'']"
          "''abc''" "''{email:a@b.com}''" demo_parse demo_user]
        getStoredAuth_cases [of "[TOKEN_KEY \<mapsto> ''abc'', USER_KEY \<mapsto> ''{email'']" "''abc''"
          "''{email''" demo_parse demo_user]
        getStoredAuth_cases [of "[USER_KEY \<mapsto> ''{email:a@b.com}'']" "''abc''"
          "''{email''" demo_parse demo_user]
  by (simp add: getItem_def TOKEN_KEY_def USER_KEY_def demo_parse_def truthy_def)

text \<open>
  C5 as stated fails: with a token stored and no user, \<^verbatim>\<open>getStoredAuth\<close> returns nothing
  and the token is still stored afterwards.
\<close>

theorem getStoredAuth_keeps_token_counterexample:
  "snd (getStoredAuth demo_parse [TOKEN_KEY \<mapsto> ''abc'']) = None
   \<and> getItem (fst (getStoredAuth demo_parse [TOKEN_KEY \<mapsto> ''abc''])) TOKEN_KEY = Some ''abc''"
  by (simp add: getStoredAuth_def getItem_def TOKEN_KEY_def USER_KEY_def truthy_def Let_def)

text \<open>
  C9, as amended. For every token string that is not empty and every user object that
  the parser gives back from its own text (the parser throwing on the empty text),
  \<^verbatim>\<open>saveAuthData\<close> followed by \<^verbatim>\<open>getStoredAuth\<close> returns that token and that user, and
  the storage is as \<^verbatim>\<open>saveAuthData\<close> left it.
\<close>

theorem save_then_load:
  "tok \<noteq> [] \<and> parse [] = None \<and> parse (stringify usr) = Some usr \<longrightarrow>
     getStoredAuth parse (saveAuthData stringify ls tok usr)
       = (saveAuthData stringify ls tok usr, Some (tok, usr))"
  by (auto simp: getStoredAuth_def saveAuthData_def truthy_def Let_def getItem_simps
        TOKEN_KEY_def USER_KEY_def)

theorem save_then_load_witness:
  "''abc'' \<noteq> [] \<and> demo_parse [] = None \<and> demo_parse (demo_stringify demo_user) = Some demo_user
   \<and> getStoredAuth demo_parse (saveAuthData demo_stringify Map.empty ''abc'' demo_user)
       = (saveAuthData demo_stringify Map.empty ''abc'' demo_user, Some (''abc'', demo_user))"
  using save_then_load [of "''abc''" demo_parse demo_stringify demo_user Map.empty]
  by (simp add: demo_parse_def demo_stringify_def demo_user_def)

text \<open>
  C9 as stated fails for the empty token string: the user round-trips through the
  parser, yet loading after saving returns nothing.
\<close>

theorem save_then_load_empty_token_counterexample:
  "demo_parse (demo_stringify demo_user) = Some demo_user
   \<and> snd (getStoredAuth demo_parse (saveAuthData demo_stringify Map.empty [] demo_user)) = None"
  by (simp add: getStoredAuth_def saveAuthData_def truthy_def Let_def getItem_simps
        TOKEN_KEY_def USER_KEY_def demo_parse_def demo_stringify_def demo_user_def)

section \<open>Session state\<close>

text \<open>
  C8. After \<^verbatim>\<open>setCredentials\<close> and after \<^verbatim>\<open>logout\<close>, \<^verbatim>\<open>isAuthenticated\<close> is true exactly
  when the token is a non-empty string; \<^verbatim>\<open>setCredentials\<close> replaces all three fields by
  the payload's user, the payload's token and that flag, whatever the state was, and
  \<^verbatim>\<open>logout\<close> resets all three.
\<close>

theorem isAuthenticated_iff_token:
  "isAuthenticated (setCredentials st usr tok) = truthy (token (setCredentials st usr tok))
   \<and> setCredentials st usr tok = \<lparr>user = usr, token = tok, isAuthenticated = truthy tok\<rparr>
   \<and> isAuthenticated (snd (logout (ls, st))) = truthy (token (snd (logout (ls, st))))
   \<and> snd (logout (ls, st)) = \<lparr>user = None, token = None, isAuthenticated = False\<rparr>"
  by (simp add: setCredentials_def logout_def truthy_def)

section \<open>Wishlist mirror\<close>

text \<open>
  C10, as amended. \<^verbatim>\<open>addToWishlist\<close> and \<^verbatim>\<open>removeFromWishlist\<close> keep a mirror with at
  most one entry per product id that way, \<^verbatim>\<open>clearWishlist\<close> always leaves such a mirror,
  and after \<^verbatim>\<open>setWishlist\<close> the mirror has at most one entry per id exactly when the
  payload has. Adding a product whose id is already in the mirror changes nothing.
\<close>

theorem wishlist_unique_ids:
  "(unique_ids st \<longrightarrow> unique_ids (addToWishlist st p))
   \<and> (unique_ids st \<longrightarrow> unique_ids (removeFromWishlist st k))
   \<and> unique_ids (clearWishlist st)
   \<and> (unique_ids (setWishlist st ps) = distinct (map product_id ps))
   \<and> (product_id p \<in> product_id ` set (items st) \<longrightarrow> addToWishlist st p = st)"
  by (auto simp: unique_ids_def addToWishlist_def removeFromWishlist_def clearWishlist_def
        setWishlist_def find_None_iff distinct_map_filter split: option.splits)

theorem wishlist_unique_ids_witness:
  "unique_ids (setWishlist wishlist_initialState [demo_product])
   \<and> unique_ids (addToWishlist (setWishlist wishlist_initialState [demo_product]) demo_product)
   \<and> unique_ids (removeFromWishlist (setWishlist wishlist_initialState [demo_product]) ''p1'')
   \<and> product_id demo_product
       \<in> product_id ` set (items (setWishlist wishlist_initialState [demo_product]))
   \<and> addToWishlist (setWishlist wishlist_initialState [demo_product]) demo_product
       = setWishlist wishlist_initialState [demo_product]"
  using wishlist_unique_ids [of "setWishlist wishlist_initialState [demo_product]" demo_product
          "''p1''" "[demo_product]"]
  by (simp add: setWishlist_def)

text \<open>
  C10 as stated fails for \<^verbatim>\<open>setWishlist\<close>: a payload that lists a product twice leaves
  two entries with one id in the mirror.
\<close>

theorem setWishlist_duplicates_counterexample:
  "\<not> unique_ids (setWishlist wishlist_initialState [demo_product, demo_product])"
  by (simp add: unique_ids_def setWishlist_def)

section \<open>The HTTP client, step by step\<close>


lemma clearAuthData_idem: "clearAuthData (clearAuthData ls) = clearAuthData ls"
  by (simp add: clearAuthData_def removeItem_def fun_eq_iff)

lemma settle_Inl: "settle cfg a = Inl e \<Longrightarrow> \<exists>resp msg. e = AxiosError cfg resp msg"
  by (auto simp: settle_def split: net_result.splits if_splits)

lemma retry_outgoing: "retry (outgoing w cfg) = retry cfg"
  by (simp add: outgoing_def request_interceptor_def merge_defaults_def Let_def)

lemma api_step:
  "api E w cfg =
     (case settle (outgoing w cfg) (server E (wire w) (first_exchange w cfg)) of
        Inr r \<Rightarrow> (w\<lparr>wire := wire w @ [first_exchange w cfg]\<rparr>, Inr r)
      | Inl e \<Rightarrow> response_rejected E (w\<lparr>wire := wire w @ [first_exchange w cfg]\<rparr>) e)"
  by (simp add: dispatch_def Let_def outgoing_def first_exchange_def split: sum.splits)

lemma rejected_retried:
  "retry c \<Longrightarrow> response_rejected E w (AxiosError c resp m) = (w, Inl (AxiosError c resp m))"
  by simp

lemma api_retried:
  assumes "retry cfg"
  shows "api E w cfg =
     (w\<lparr>wire := wire w @ [first_exchange w cfg]\<rparr>,
      settle (outgoing w cfg) (server E (wire w) (first_exchange w cfg)))"
proof (cases "settle (outgoing w cfg) (server E (wire w) (first_exchange w cfg))")
  case (Inl e)
  then obtain resp m where e: "e = AxiosError (outgoing w cfg) resp m"
    using settle_Inl by blast
  have "retry (outgoing w cfg)" using assms by (simp add: retry_outgoing)
  then show ?thesis
    unfolding api_step Inl e by (simp only: sum.case rejected_retried)
next
  case (Inr r)
  then show ?thesis unfolding api_step by simp
qed

lemma end_session_eq:
  "(let w1 = toast_error w msg; w2 = dispatch_logout w1;
        w3 = w2\<lparr>localStorage := clearAuthData (localStorage w2)\<rparr> in w3) = end_session w msg"
  by (simp add: toast_error_def dispatch_logout_def logout_def end_session_def Let_def
        clearAuthData_idem)

lemma rejected_no_token:
  assumes "status r1 = 401" "\<not> retry c" "\<not> truthy (getItem (localStorage w) ''refresh_token'')"
  shows "response_rejected E w (AxiosError c (Some r1) m) =
     (end_session w ''Session expired. Please log in again.'',
      Inl (AxiosError (c\<lparr>retry := True\<rparr>) (Some r1) m))"
  using assms end_session_eq [of w "''Session expired. Please log in again.''"]
  by (simp add: Let_def)

lemma axios_post_refresh:
  "axios_post E w (API_URL E @ ''/refresh'') [] [''Authorization'' \<mapsto> bearer (Some rt)] =
     (w\<lparr>wire := wire w @ [refresh_exchange E rt]\<rparr>,
      settle (refresh_request E rt) (server E (wire w) (refresh_exchange E rt)))"
  by (simp add: axios_post_def dispatch_def Let_def refresh_exchange_def refresh_request_def)

lemma rejected_refresh_failed:
  assumes "status r1 = 401" "\<not> retry c"
    "getItem (localStorage w) ''refresh_token'' = Some rt" "rt \<noteq> []"
    "settle (refresh_request E rt) (server E (wire w) (refresh_exchange E rt)) = Inl e"
  shows "response_rejected E w (AxiosError c (Some r1) m) =
     (end_session (w\<lparr>wire := wire w @ [refresh_exchange E rt]\<rparr>) (refresh_toast e), Inl e)"
  using assms
    end_session_eq [of "w\<lparr>wire := wire w @ [refresh_exchange E rt]\<rparr>" "refresh_toast e"]
  by (simp add: Let_def truthy_def axios_post_refresh del: api.simps)

lemma rejected_refresh_ok:
  assumes "status r1 = 401" "\<not> retry c"
    "getItem (localStorage w) ''refresh_token'' = Some rt" "rt \<noteq> []"
    "settle (refresh_request E rt) (server E (wire w) (refresh_exchange E rt)) = Inr r2"
  shows "response_rejected E w (AxiosError c (Some r1) m) =
     api E (w\<lparr>wire := wire w @ [refresh_exchange E rt],
               localStorage := setItem (localStorage w) ''token'' (js_string_of (access_token (data r2))),
               defaults_common := (defaults_common w)
                  (''Authorization'' \<mapsto> bearer (access_token (data r2)))\<rparr>)
       (c\<lparr>retry := True,
          headers := (headers c)(''Authorization'' \<mapsto> bearer (access_token (data r2)))\<rparr>)"
  using assms
  by (simp add: Let_def truthy_def axios_post_refresh del: api.simps)

lemma bearer_Some: "bearer (Some (js_string_of v)) = bearer v"
  by (simp add: bearer_def js_string_of_def)

lemma outgoing_retry:
  assumes "localStorage w' = setItem (localStorage w) ''token'' (js_string_of nt)"
    and "defaults_common w' = (defaults_common w)(''Authorization'' \<mapsto> bearer nt)"
  shows "outgoing w' ((outgoing w cfg)\<lparr>retry := True,
            headers := (headers (outgoing w cfg))(''Authorization'' \<mapsto> bearer nt)\<rparr>)
         = retry_request w cfg nt"
proof -
  have h: "((defaults_common w)(''Authorization'' \<mapsto> b) ++ headers (outgoing w cfg))
              (''Authorization'' \<mapsto> b)
           = (headers (outgoing w cfg))(''Authorization'' \<mapsto> b)" for b
    by (auto simp: fun_eq_iff map_add_def outgoing_def request_interceptor_def merge_defaults_def
          Let_def split: option.splits)
  show ?thesis
    by (simp add: outgoing_def [of w'] merge_defaults_def request_interceptor_def Let_def
          assms h getItem_simps retry_request_def bearer_Some)
qed

lemma api_refresh_ok:
  assumes "\<not> retry cfg"
    and "server E (wire w) (first_exchange w cfg) = Answer r1" and "status r1 = 401"
    and "getItem (localStorage w) ''refresh_token'' = Some rt" and "rt \<noteq> []"
    and "server E (wire w @ [first_exchange w cfg]) (refresh_exchange E rt) = Answer r2"
    and "200 \<le> status r2" and "status r2 < 300"
  shows "api E w cfg =
     (w\<lparr>wire := wire w @ [first_exchange w cfg, refresh_exchange E rt,
                           retry_exchange w cfg (access_token (data r2))],
        localStorage := setItem (localStorage w) ''token'' (js_string_of (access_token (data r2))),
        defaults_common := (defaults_common w)
           (''Authorization'' \<mapsto> bearer (access_token (data r2)))\<rparr>,
      settle (retry_request w cfg (access_token (data r2)))
        (server E (wire w @ [first_exchange w cfg, refresh_exchange E rt])
           (retry_exchange w cfg (access_token (data r2)))))"
proof -
  let ?nt = "access_token (data r2)"
  let ?w1 = "w\<lparr>wire := wire w @ [first_exchange w cfg]\<rparr>"
  let ?w3 = "?w1\<lparr>wire := wire ?w1 @ [refresh_exchange E rt],
               localStorage := setItem (localStorage ?w1) ''token'' (js_string_of ?nt),
               defaults_common := (defaults_common ?w1)(''Authorization'' \<mapsto> bearer ?nt)\<rparr>"
  let ?c3 = "(outgoing w cfg)\<lparr>retry := True,
          headers := (headers (outgoing w cfg))(''Authorization'' \<mapsto> bearer ?nt)\<rparr>"
  have s1: "settle (outgoing w cfg) (server E (wire w) (first_exchange w cfg))
              = Inl (AxiosError (outgoing w cfg) (Some r1) (status_message 401))"
    using assms(2,3) by (simp add: settle_def)
  have s2: "settle (refresh_request E rt) (server E (wire ?w1) (refresh_exchange E rt)) = Inr r2"
    using assms(6,7,8) by (simp add: settle_def)
  have a: "api E w cfg = response_rejected E ?w1 (AxiosError (outgoing w cfg) (Some r1) (status_message 401))"
    unfolding api_step s1 by simp
  have b: "response_rejected E ?w1 (AxiosError (outgoing w cfg) (Some r1) (status_message 401))
             = api E ?w3 ?c3"
    by (rule rejected_refresh_ok [OF assms(3) _ _ assms(5) s2])
       (simp_all add: retry_outgoing assms(1,4))
  have og: "outgoing ?w3 ?c3 = retry_request w cfg ?nt"
    by (rule outgoing_retry) simp_all
  have fe: "first_exchange ?w3 ?c3 = retry_exchange w cfg ?nt"
    by (simp only: first_exchange_def [of "?w3" "?c3"] og retry_exchange_def)
  have c: "api E ?w3 ?c3 = (?w3\<lparr>wire := wire ?w3 @ [first_exchange ?w3 ?c3]\<rparr>,
      settle (outgoing ?w3 ?c3) (server E (wire ?w3) (first_exchange ?w3 ?c3)))"
    by (rule api_retried) simp
  show ?thesis
    unfolding a b c og fe by simp
qed

lemma api_refresh_failed:
  assumes "\<not> retry cfg"
    and "server E (wire w) (first_exchange w cfg) = Answer r1" and "status r1 = 401"
    and "getItem (localStorage w) ''refresh_token'' = Some rt" and "rt \<noteq> []"
    and "settle (refresh_request E rt)
           (server E (wire w @ [first_exchange w cfg]) (refresh_exchange E rt)) = Inl e"
  shows "api E w cfg =
     (end_session (w\<lparr>wire := wire w @ [first_exchange w cfg, refresh_exchange E rt]\<rparr>)
        (refresh_toast e), Inl e)"
proof -
  let ?w1 = "w\<lparr>wire := wire w @ [first_exchange w cfg]\<rparr>"
  have s1: "settle (outgoing w cfg) (server E (wire w) (first_exchange w cfg))
              = Inl (AxiosError (outgoing w cfg) (Some r1) (status_message 401))"
    using assms(2,3) by (simp add: settle_def)
  have a: "api E w cfg = response_rejected E ?w1 (AxiosError (outgoing w cfg) (Some r1) (status_message 401))"
    unfolding api_step s1 by simp
  have b: "response_rejected E ?w1 (AxiosError (outgoing w cfg) (Some r1) (status_message 401))
             = (end_session (?w1\<lparr>wire := wire ?w1 @ [refresh_exchange E rt]\<rparr>) (refresh_toast e), Inl e)"
    using assms(1,4,6)
    by (intro rejected_refresh_failed [OF assms(3) _ _ assms(5)]) (simp_all add: retry_outgoing)
  show ?thesis unfolding a b by simp
qed

lemma api_no_refresh_token:
  assumes "\<not> retry cfg"
    and "server E (wire w) (first_exchange w cfg) = Answer r1" and "status r1 = 401"
    and "\<not> truthy (getItem (localStorage w) ''refresh_token'')"
  shows "api E w cfg =
     (end_session (w\<lparr>wire := wire w @ [first_exchange w cfg]\<rparr>)
        ''Session expired. Please log in again.'',
      Inl (AxiosError ((outgoing w cfg)\<lparr>retry := True\<rparr>) (Some r1) (status_message 401)))"
proof -
  let ?w1 = "w\<lparr>wire := wire w @ [first_exchange w cfg]\<rparr>"
  have s1: "settle (outgoing w cfg) (server E (wire w) (first_exchange w cfg))
              = Inl (AxiosError (outgoing w cfg) (Some r1) (status_message 401))"
    using assms(2,3) by (simp add: settle_def)
  have a: "api E w cfg = response_rejected E ?w1 (AxiosError (outgoing w cfg) (Some r1) (status_message 401))"
    unfolding api_step s1 by simp
  show ?thesis
    unfolding a using assms(1,4)
    by (intro rejected_no_token [OF assms(3)]) (simp_all add: retry_outgoing)
qed


lemma clearAuthData_other:
  "k \<noteq> TOKEN_KEY \<Longrightarrow> k \<noteq> USER_KEY \<Longrightarrow> getItem (clearAuthData ls) k = getItem ls k"
  by (simp add: clearAuthData_def getItem_simps)

lemma refresh_token_keys:
  "''refresh_token'' \<noteq> TOKEN_KEY" "''refresh_token'' \<noteq> USER_KEY" "''refresh_token'' \<noteq> ''token''"
  by (simp_all add: TOKEN_KEY_def USER_KEY_def)

lemma end_session_simps:
  "wire (end_session w msg) = wire w"
  "toasts (end_session w msg) = toasts w @ [msg]"
  "defaults_common (end_session w msg) = defaults_common w"
  "localStorage (end_session w msg) = clearAuthData (localStorage w)"
  "auth (end_session w msg) = \<lparr>user = None, token = None, isAuthenticated = False\<rparr>"
  by (simp_all add: end_session_def)

lemma attempts_simps:
  "refresh_attempts [] = []"
  "refresh_attempts (refresh_exchange E rt # xs) = refresh_exchange E rt # refresh_attempts xs"
  "refresh_attempts (first_exchange w cfg # xs) = refresh_attempts xs"
  "refresh_attempts (retry_exchange w cfg nt # xs) = refresh_attempts xs"
  "refresh_attempts (xs @ ys) = refresh_attempts xs @ refresh_attempts ys"
  "api_sends [] = []"
  "api_sends (refresh_exchange E rt # xs) = api_sends xs"
  "api_sends (first_exchange w cfg # xs) = first_exchange w cfg # api_sends xs"
  "api_sends (retry_exchange w cfg nt # xs) = retry_exchange w cfg nt # api_sends xs"
  "api_sends (xs @ ys) = api_sends xs @ api_sends ys"
  by (simp_all add: refresh_attempts_def api_sends_def refresh_exchange_def first_exchange_def
        retry_exchange_def)

lemma extendsI:
  assumes "wire w' = wire w @ new"
    "\<not> truthy (getItem (localStorage w) ''refresh_token'') \<Longrightarrow> refresh_attempts new = []"
    "\<And>k. k \<noteq> TOKEN_KEY \<Longrightarrow> k \<noteq> USER_KEY \<Longrightarrow>
       getItem (localStorage w') k = getItem (localStorage w) k"
  shows "extends w w' new"
  unfolding extends_def using assms by blast

lemma extends_refl: "extends w w []"
  by (rule extendsI) (simp_all add: attempts_simps)

lemma extends_trans:
  assumes "extends w w' a" "extends w' w'' b"
  shows "extends w w'' (a @ b)"
proof -
  have rt: "getItem (localStorage w') ''refresh_token'' = getItem (localStorage w) ''refresh_token''"
    using assms(1) unfolding extends_def by (simp add: refresh_token_keys)
  show ?thesis
    using assms rt unfolding extends_def by (simp add: attempts_simps)
qed

lemma extends_frame:
  "extends w w' new \<Longrightarrow> k \<noteq> TOKEN_KEY \<Longrightarrow> k \<noteq> USER_KEY \<Longrightarrow>
     getItem (localStorage w') k = getItem (localStorage w) k"
  unfolding extends_def by blast

lemma extends_storage:
  assumes "extends w w' new" "wire w'' = wire w'"
    "\<And>k. k \<noteq> TOKEN_KEY \<Longrightarrow> k \<noteq> USER_KEY \<Longrightarrow>
       getItem (localStorage w'') k = getItem (localStorage w') k"
  shows "extends w w'' new"
  using assms unfolding extends_def by simp

lemma rejected_extends:
  "\<exists>new. extends w (fst (response_rejected E w e)) new
     \<and> length (refresh_attempts new) \<le> 1 \<and> length (api_sends new) \<le> 1"
proof (cases e)
  case (Error msg)
  show ?thesis unfolding Error
    by (rule exI [of _ "[]"]) (simp add: extends_refl attempts_simps)
next
  case (AxiosError c resp m)
  show ?thesis
  proof (cases "map_option status resp = Some 401 \<and> \<not> retry c")
    case False
    then have "response_rejected E w e = (w, Inl e)"
      unfolding AxiosError by auto
    then show ?thesis
      by (intro exI [of _ "[]"]) (simp add: extends_refl attempts_simps)
  next
    case True
    then obtain r1 where r1: "resp = Some r1" "status r1 = 401" and nr: "\<not> retry c"
      by auto
    show ?thesis
    proof (cases "truthy (getItem (localStorage w) ''refresh_token'')")
      case False
      have eq: "response_rejected E w e =
              (end_session w ''Session expired. Please log in again.'',
               Inl (AxiosError (c\<lparr>retry := True\<rparr>) (Some r1) m))"
        unfolding AxiosError r1 by (rule rejected_no_token [OF r1(2) nr False])
      have "extends w (end_session w ''Session expired. Please log in again.'') []"
        by (rule extendsI) (simp_all add: attempts_simps end_session_simps clearAuthData_other)
      then show ?thesis
        unfolding eq by (intro exI [of _ "[]"]) (simp add: attempts_simps)
    next
      case True
      then obtain rt where rt: "getItem (localStorage w) ''refresh_token'' = Some rt" "rt \<noteq> []"
        by (auto simp: truthy_def split: option.splits)
      show ?thesis
      proof (cases "settle (refresh_request E rt) (server E (wire w) (refresh_exchange E rt))")
        case (Inl e')
        have eq: "response_rejected E w e =
           (end_session (w\<lparr>wire := wire w @ [refresh_exchange E rt]\<rparr>) (refresh_toast e'), Inl e')"
          unfolding AxiosError r1 by (rule rejected_refresh_failed [OF r1(2) nr rt Inl])
        have "extends w (end_session (w\<lparr>wire := wire w @ [refresh_exchange E rt]\<rparr>)
                 (refresh_toast e')) [refresh_exchange E rt]"
          using True
          by (intro extendsI) (simp_all add: attempts_simps end_session_simps clearAuthData_other)
        then show ?thesis
          unfolding eq by (intro exI [of _ "[refresh_exchange E rt]"]) (simp add: attempts_simps)
      next
        case (Inr r2)
        let ?w3 = "w\<lparr>wire := wire w @ [refresh_exchange E rt],
               localStorage := setItem (localStorage w) ''token'' (js_string_of (access_token (data r2))),
               defaults_common := (defaults_common w)
                  (''Authorization'' \<mapsto> bearer (access_token (data r2)))\<rparr>"
        let ?c3 = "c\<lparr>retry := True,
          headers := (headers c)(''Authorization'' \<mapsto> bearer (access_token (data r2)))\<rparr>"
        have "response_rejected E w e = api E ?w3 ?c3"
          unfolding AxiosError r1 by (rule rejected_refresh_ok [OF r1(2) nr rt Inr])
        also have "\<dots> = (?w3\<lparr>wire := wire ?w3 @ [first_exchange ?w3 ?c3]\<rparr>,
            settle (outgoing ?w3 ?c3) (server E (wire ?w3) (first_exchange ?w3 ?c3)))"
          by (rule api_retried) simp
        finally have eq: "fst (response_rejected E w e) = ?w3\<lparr>wire := wire ?w3 @ [first_exchange ?w3 ?c3]\<rparr>"
          by simp
        have "extends w (?w3\<lparr>wire := wire ?w3 @ [first_exchange ?w3 ?c3]\<rparr>)
                [refresh_exchange E rt, first_exchange ?w3 ?c3]"
          using True
          by (intro extendsI) (simp_all add: getItem_simps TOKEN_KEY_def)
        then show ?thesis
          unfolding eq
          by (intro exI [of _ "[refresh_exchange E rt, first_exchange ?w3 ?c3]"])
             (simp add: attempts_simps)
      qed
    qed
  qed
qed

lemma send_extends: "extends w (w\<lparr>wire := wire w @ [first_exchange w cfg]\<rparr>) [first_exchange w cfg]"
  by (rule extendsI) (simp_all add: attempts_simps)

lemma api_extends:
  "\<exists>new. extends w (fst (api E w cfg)) (first_exchange w cfg # new)
     \<and> length (refresh_attempts new) \<le> 1 \<and> length (api_sends new) \<le> 1"
proof (cases "settle (outgoing w cfg) (server E (wire w) (first_exchange w cfg))")
  case (Inl e)
  let ?w1 = "w\<lparr>wire := wire w @ [first_exchange w cfg]\<rparr>"
  have eq: "api E w cfg = response_rejected E ?w1 e"
    unfolding api_step Inl by simp
  obtain new where new: "extends ?w1 (fst (response_rejected E ?w1 e)) new"
      "length (refresh_attempts new) \<le> 1" "length (api_sends new) \<le> 1"
    using rejected_extends by blast
  have "extends w (fst (api E w cfg)) ([first_exchange w cfg] @ new)"
    unfolding eq by (rule extends_trans [OF send_extends new(1)])
  then show ?thesis using new(2,3) by auto
next
  case (Inr r)
  have "api E w cfg = (w\<lparr>wire := wire w @ [first_exchange w cfg]\<rparr>, Inr r)"
    unfolding api_step Inr by simp
  then show ?thesis
    using send_extends [of w cfg] by (intro exI [of _ "[]"]) (simp add: attempts_simps)
qed

lemma api_extends_some: "\<exists>new. extends w (fst (api E w cfg)) new"
  using api_extends by blast

lemma login_extends: "\<exists>new. extends w (fst (login E w mail pw)) new"
  using api_extends_some [of w E]
  by (auto simp: login_def api_post_def split: prod.splits sum.splits
        simp del: api.simps) (metis fst_conv)+

lemma signup_extends: "\<exists>new. extends w (fst (signup E w u mail pw)) new"
  using api_extends_some [of w E]
  by (auto simp: signup_def api_post_def split: prod.splits sum.splits
        simp del: api.simps) (metis fst_conv)+

lemma refreshAccessToken_extends: "\<exists>new. extends w (fst (refreshAccessToken E w)) new"
  using api_extends_some [of w E] extends_refl [of w]
  by (auto simp: refreshAccessToken_def api_post_def Let_def split: prod.splits sum.splits
        simp del: api.simps) (metis fst_conv)+


lemma handleSubmit_extends:
  "\<exists>new. extends w (fst (handleSubmit S E w ty u mail pw)) new"
proof -
  let ?res = "case ty of LoginForm \<Rightarrow> login E w mail pw | SignupForm \<Rightarrow> signup E w u mail pw"
  obtain w' r where res: "?res = (w', r)"
    by (cases ?res)
  have "\<exists>new. extends w (fst ?res) new"
    using login_extends [of w E mail pw] signup_extends [of w E u mail pw]
    by (cases ty) auto
  then obtain new where new: "extends w w' new"
    unfolding res by auto
  show ?thesis
  proof (cases r)
    case (Inl e)
    then have "fst (handleSubmit S E w ty u mail pw) = w'"
      using res by (simp add: handleSubmit_def)
    then show ?thesis using new by auto
  next
    case (Inr d)
    then have eq: "fst (handleSubmit S E w ty u mail pw) =
        w'\<lparr>localStorage := saveAuthData (stringify_opt S) (localStorage w')
                      (js_string_of (access_token d)) (data_user d),
            auth := setCredentials (auth w') (data_user d) (access_token d)\<rparr>"
      using res by (simp add: handleSubmit_def Let_def)
    have "extends w (fst (handleSubmit S E w ty u mail pw)) new"
      unfolding eq
      by (rule extends_storage [OF new]) (simp_all add: saveAuthData_def getItem_simps)
    then show ?thesis by blast
  qed
qed

lemma useAuth_tick_extends: "\<exists>new. extends w (useAuth_tick E w) new"
proof (cases "isAuthenticated (auth w) \<and> truthy (token (auth w))")
  case False
  then have "useAuth_tick E w = w" by (auto simp: useAuth_tick_def)
  then show ?thesis using extends_refl [of w] by auto
next
  case True
  obtain w' r where res: "refreshAccessToken E w = (w', r)"
    by (cases "refreshAccessToken E w")
  obtain new where new: "extends w w' new"
    using refreshAccessToken_extends [of w E] unfolding res by auto
  show ?thesis
  proof (cases r)
    case (Inl e)
    then have eq: "useAuth_tick E w = end_session w' ''Session expired. Please log in again.''"
      using True res
      by (simp add: useAuth_tick_def Let_def toast_error_def dispatch_logout_def logout_def
            end_session_def clearAuthData_idem)
    have "extends w (useAuth_tick E w) new"
      unfolding eq
      by (rule extends_storage [OF new]) (simp_all add: end_session_simps clearAuthData_other)
    then show ?thesis by blast
  next
    case (Inr d)
    then have eq: "useAuth_tick E w =
        w'\<lparr>localStorage := setItem (localStorage w') ''token'' (js_string_of (access_token d)),
            auth := setCredentials (auth w') (user (auth w)) (access_token d)\<rparr>"
      using True res by (simp add: useAuth_tick_def)
    have "extends w (useAuth_tick E w) new"
      unfolding eq
      by (rule extends_storage [OF new]) (simp_all add: getItem_simps TOKEN_KEY_def)
    then show ?thesis by blast
  qed
qed

lemma step_extends: "\<exists>new. extends w (step S P E w x) new"
proof (cases x)
  case (Call cfg)
  then show ?thesis using api_extends_some [of w E cfg] by simp
next
  case (Submit ty u mail pw)
  then show ?thesis using handleSubmit_extends [of w S E ty u mail pw] by simp
next
  case Tick
  then show ?thesis using useAuth_tick_extends [of w E] by simp
next
  case HandleLogout
  have "extends w (handleLogout w) []"
    by (rule extendsI)
       (simp_all add: handleLogout_def dispatch_logout_def logout_def attempts_simps
          clearAuthData_other)
  then show ?thesis using HandleLogout by auto
next
  case RefreshAccessToken
  then show ?thesis using refreshAccessToken_extends [of w E] by simp
next
  case (SaveAuthData tok usr)
  have "extends w (w\<lparr>localStorage := saveAuthData S (localStorage w) tok usr\<rparr>) []"
    by (rule extendsI) (simp_all add: saveAuthData_def getItem_simps attempts_simps)
  then show ?thesis using SaveAuthData by auto
next
  case ClearAuthData
  have "extends w (w\<lparr>localStorage := clearAuthData (localStorage w)\<rparr>) []"
    by (rule extendsI) (simp_all add: clearAuthData_other attempts_simps)
  then show ?thesis using ClearAuthData by auto
next
  case GetStoredAuth
  have "fst (getStoredAuth P (localStorage w)) = localStorage w
        \<or> fst (getStoredAuth P (localStorage w)) = clearAuthData (localStorage w)"
    by (auto simp: getStoredAuth_def Let_def split: option.splits)
  then have "extends w (w\<lparr>localStorage := fst (getStoredAuth P (localStorage w))\<rparr>) []"
    by (intro extendsI) (auto simp: clearAuthData_other attempts_simps)
  then show ?thesis using GetStoredAuth by auto
qed

lemma run_extends: "\<exists>new. extends w (run S P E w xs) new"
proof (induction xs arbitrary: w)
  case Nil
  show ?case using extends_refl [of w] by auto
next
  case (Cons x xs)
  obtain a where a: "extends w (step S P E w x) a"
    using step_extends by blast
  obtain b where b: "extends (step S P E w x) (run S P E (step S P E w x) xs) b"
    using Cons.IH by blast
  show ?case using extends_trans [OF a b] by auto
qed

lemma settle_Inr: "settle cfg a = Inr r \<Longrightarrow> a = Answer r \<and> 200 \<le> status r \<and> status r < 300"
  by (auto simp: settle_def split: net_result.splits if_splits)

lemma session_cleared_end_session: "session_cleared (end_session w msg)"
  by (simp add: session_cleared_def end_session_simps clearAuthData_def getItem_simps)

lemma via_simps:
  "via (first_exchange w cfg) = ViaApi"
  "via (refresh_exchange E rt) = ViaAxios"
  "via (retry_exchange w cfg nt) = ViaApi"
  by (simp_all add: first_exchange_def refresh_exchange_def retry_exchange_def)

lemma demo_server_simps:
  "server env_refresh_ok past x = (case via x of ViaAxios \<Rightarrow> Answer fresh_token
                                               | ViaApi \<Rightarrow> Answer unauthorized)"
  "server env_refresh_denied past x = (case via x of ViaAxios \<Rightarrow> Answer forbidden
                                                   | ViaApi \<Rightarrow> Answer unauthorized)"
  "server env_all_ok past x = Answer fresh_token"
  by (simp_all add: env_refresh_ok_def env_refresh_denied_def env_all_ok_def)

lemma demo_settle_simps:
  "settle c (Answer unauthorized) = Inl (AxiosError c (Some unauthorized) (status_message 401))"
  "settle c (Answer forbidden) = Inl (AxiosError c (Some forbidden) (status_message 403))"
  "settle c (Answer fresh_token) = Inr fresh_token"
  by (simp_all add: settle_def unauthorized_def forbidden_def fresh_token_def)

lemma demo_response_simps:
  "status unauthorized = 401" "status forbidden = 403" "status fresh_token = 200"
  "access_token (data fresh_token) = Some ''new''"
  "data_error (data forbidden) = None"
  by (simp_all add: unauthorized_def forbidden_def fresh_token_def empty_payload_def)

lemma demo_world_simps:
  "wire demo_world = []" "toasts demo_world = []"
  "getItem (localStorage demo_world) ''refresh_token'' = Some ''xyz''"
  "getItem (localStorage demo_world) ''token'' = Some ''old''"
  "wire demo_world_no_refresh = []" "toasts demo_world_no_refresh = []"
  "getItem (localStorage demo_world_no_refresh) ''refresh_token'' = None"
  "getItem (localStorage demo_world_no_refresh) ''token'' = Some ''old''"
  "retry demo_request = False"
  by (simp_all add: demo_world_def demo_world_no_refresh_def demo_request_def getItem_def)

section \<open>Refresh on 401\<close>

text \<open>
  C1, as amended. One call \<^verbatim>\<open>api(config)\<close> puts at most one refresh exchange and at most
  two sends of the request on the wire, whatever the backend answers. When the request
  does not carry the retry marker, the first answer is a 401 and a non-empty refresh
  token is stored, exactly one refresh exchange follows the request, and at most one
  further exchange, which is not a refresh. When the refresh is answered with a status
  from 200 to 299, the wire holds exactly the request, the refresh and one retry; the
  retry carries the marker and the header \<^verbatim>\<open>Bearer <new token>\<close>, the new token is
  stored, and the caller gets whatever the retry settles to, a second 401 included,
  with nothing sent after it.
\<close>

theorem refresh_once_retry_once:
  "(\<exists>new. wire (fst (api E w cfg)) = wire w @ new
        \<and> length (refresh_attempts new) \<le> 1 \<and> length (api_sends new) \<le> 2)
   \<and> (\<not> retry cfg \<and> server E (wire w) (first_exchange w cfg) = Answer r1 \<and> status r1 = 401
        \<and> getItem (localStorage w) ''refresh_token'' = Some rt \<and> rt \<noteq> [] \<longrightarrow>
       (\<exists>rest. wire (fst (api E w cfg))
                  = wire w @ first_exchange w cfg # refresh_exchange E rt # rest
              \<and> refresh_attempts rest = [] \<and> length rest \<le> 1)
       \<and> (server E (wire w @ [first_exchange w cfg]) (refresh_exchange E rt) = Answer r2
            \<and> 200 \<le> status r2 \<and> status r2 < 300 \<longrightarrow>
           wire (fst (api E w cfg))
             = wire w @ [first_exchange w cfg, refresh_exchange E rt,
                         retry_exchange w cfg (access_token (data r2))]
           \<and> snd (api E w cfg)
               = settle (retry_request w cfg (access_token (data r2)))
                   (server E (wire w @ [first_exchange w cfg, refresh_exchange E rt])
                      (retry_exchange w cfg (access_token (data r2))))
           \<and> headers (retry_request w cfg (access_token (data r2))) ''Authorization''
               = Some (bearer (access_token (data r2)))
           \<and> getItem (localStorage (fst (api E w cfg))) ''token''
               = Some (js_string_of (access_token (data r2)))))"
proof (intro conjI impI)
  obtain new where new: "extends w (fst (api E w cfg)) (first_exchange w cfg # new)"
      "length (refresh_attempts new) \<le> 1" "length (api_sends new) \<le> 1"
    using api_extends by blast
  show "\<exists>new. wire (fst (api E w cfg)) = wire w @ new
        \<and> length (refresh_attempts new) \<le> 1 \<and> length (api_sends new) \<le> 2"
    using new
    by (intro exI [of _ "first_exchange w cfg # new"]) (simp add: extends_def attempts_simps)
next
  assume h: "\<not> retry cfg \<and> server E (wire w) (first_exchange w cfg) = Answer r1 \<and> status r1 = 401
        \<and> getItem (localStorage w) ''refresh_token'' = Some rt \<and> rt \<noteq> []"
  then have h1: "\<not> retry cfg" and h2: "server E (wire w) (first_exchange w cfg) = Answer r1"
    and h3: "status r1 = 401" and h4: "getItem (localStorage w) ''refresh_token'' = Some rt"
    and h5: "rt \<noteq> []"
    by blast+
  show "\<exists>rest. wire (fst (api E w cfg))
                  = wire w @ first_exchange w cfg # refresh_exchange E rt # rest
              \<and> refresh_attempts rest = [] \<and> length rest \<le> 1"
  proof (cases "settle (refresh_request E rt)
                  (server E (wire w @ [first_exchange w cfg]) (refresh_exchange E rt))")
    case (Inl e)
    have "api E w cfg =
       (end_session (w\<lparr>wire := wire w @ [first_exchange w cfg, refresh_exchange E rt]\<rparr>)
          (refresh_toast e), Inl e)"
      by (rule api_refresh_failed [OF h1 h2 h3 h4 h5 Inl])
    then show ?thesis
      by (intro exI [of _ "[]"]) (simp add: end_session_simps attempts_simps)
  next
    case (Inr r)
    then have a: "server E (wire w @ [first_exchange w cfg]) (refresh_exchange E rt) = Answer r"
      "200 \<le> status r" "status r < 300"
      using settle_Inr by blast+
    have "fst (api E w cfg) =
        w\<lparr>wire := wire w @ [first_exchange w cfg, refresh_exchange E rt,
                           retry_exchange w cfg (access_token (data r))],
        localStorage := setItem (localStorage w) ''token'' (js_string_of (access_token (data r))),
        defaults_common := (defaults_common w)
           (''Authorization'' \<mapsto> bearer (access_token (data r)))\<rparr>"
      unfolding api_refresh_ok [OF h1 h2 h3 h4 h5 a] by simp
    then show ?thesis
      by (intro exI [of _ "[retry_exchange w cfg (access_token (data r))]"])
         (simp add: attempts_simps)
  qed
next
  assume h: "\<not> retry cfg \<and> server E (wire w) (first_exchange w cfg) = Answer r1 \<and> status r1 = 401
        \<and> getItem (localStorage w) ''refresh_token'' = Some rt \<and> rt \<noteq> []"
    and a: "server E (wire w @ [first_exchange w cfg]) (refresh_exchange E rt) = Answer r2
            \<and> 200 \<le> status r2 \<and> status r2 < 300"
  from h have h1: "\<not> retry cfg" and h2: "server E (wire w) (first_exchange w cfg) = Answer r1"
    and h3: "status r1 = 401" and h4: "getItem (localStorage w) ''refresh_token'' = Some rt"
    and h5: "rt \<noteq> []"
    by blast+
  from a have a1: "server E (wire w @ [first_exchange w cfg]) (refresh_exchange E rt) = Answer r2"
    and a2: "200 \<le> status r2" and a3: "status r2 < 300"
    by blast+
  note eq = api_refresh_ok [OF h1 h2 h3 h4 h5 a1 a2 a3]
  show "wire (fst (api E w cfg))
             = wire w @ [first_exchange w cfg, refresh_exchange E rt,
                         retry_exchange w cfg (access_token (data r2))]"
    unfolding eq by simp
  show "snd (api E w cfg)
               = settle (retry_request w cfg (access_token (data r2)))
                   (server E (wire w @ [first_exchange w cfg, refresh_exchange E rt])
                      (retry_exchange w cfg (access_token (data r2))))"
    unfolding eq by simp
  show "headers (retry_request w cfg (access_token (data r2))) ''Authorization''
               = Some (bearer (access_token (data r2)))"
    by (simp add: retry_request_def)
  show "getItem (localStorage (fst (api E w cfg))) ''token''
               = Some (js_string_of (access_token (data r2)))"
    unfolding eq by (simp add: getItem_simps)
qed

theorem refresh_once_retry_once_witness:
  "\<not> retry demo_request
   \<and> server env_refresh_ok (wire demo_world) (first_exchange demo_world demo_request)
        = Answer unauthorized
   \<and> status unauthorized = 401
   \<and> getItem (localStorage demo_world) ''refresh_token'' = Some ''xyz''
   \<and> server env_refresh_ok (wire demo_world @ [first_exchange demo_world demo_request])
        (refresh_exchange env_refresh_ok ''xyz'') = Answer fresh_token
   \<and> wire (fst (api env_refresh_ok demo_world demo_request))
        = [first_exchange demo_world demo_request, refresh_exchange env_refresh_ok ''xyz'',
           retry_exchange demo_world demo_request (Some ''new'')]
   \<and> snd (api env_refresh_ok demo_world demo_request)
        = Inl (AxiosError (retry_request demo_world demo_request (Some ''new''))
                 (Some unauthorized) (status_message 401))
   \<and> headers (retry_request demo_world demo_request (Some ''new'')) ''Authorization''
        = Some (bearer (Some ''new''))"
  using refresh_once_retry_once [of env_refresh_ok demo_world demo_request unauthorized
          "''xyz''" fresh_token]
  by (simp add: via_simps demo_server_simps demo_settle_simps demo_response_simps
        demo_world_simps del: api.simps)

text \<open>
  C1 as stated fails when no refresh token is stored: the request is answered with a
  401 and no refresh exchange is sent.
\<close>

theorem no_refresh_token_no_refresh_counterexample:
  "\<not> retry demo_request
   \<and> server env_refresh_ok (wire demo_world_no_refresh)
        (first_exchange demo_world_no_refresh demo_request) = Answer unauthorized
   \<and> status unauthorized = 401
   \<and> refresh_attempts (wire (fst (api env_refresh_ok demo_world_no_refresh demo_request))) = []"
  using api_no_refresh_token [of demo_request env_refresh_ok demo_world_no_refresh unauthorized]
  by (simp add: via_simps demo_server_simps demo_response_simps demo_world_simps truthy_def
        end_session_simps attempts_simps del: api.simps)

text \<open>
  C2. When a request without the retry marker is answered with a 401 and no refresh
  token is stored (the key is missing or holds the empty string), the auth slice is
  reset and both stored credentials are removed, the wire holds the request and nothing
  else (no refresh exchange, no retry), the toast \<^verbatim>\<open>Session expired. Please log in
  again.\<close> is shown, and the caller is rejected with the 401 error of the request.
\<close>

theorem no_refresh_token_ends_session:
  "\<not> retry cfg \<and> server E (wire w) (first_exchange w cfg) = Answer r1 \<and> status r1 = 401
     \<and> \<not> truthy (getItem (localStorage w) ''refresh_token'') \<longrightarrow>
   session_cleared (fst (api E w cfg))
   \<and> wire (fst (api E w cfg)) = wire w @ [first_exchange w cfg]
   \<and> toasts (fst (api E w cfg)) = toasts w @ [''Session expired. Please log in again.'']
   \<and> snd (api E w cfg)
       = Inl (AxiosError ((outgoing w cfg)\<lparr>retry := True\<rparr>) (Some r1) (status_message 401))"
proof
  assume "\<not> retry cfg \<and> server E (wire w) (first_exchange w cfg) = Answer r1 \<and> status r1 = 401
     \<and> \<not> truthy (getItem (localStorage w) ''refresh_token'')"
  then have h1: "\<not> retry cfg" and h2: "server E (wire w) (first_exchange w cfg) = Answer r1"
    and h3: "status r1 = 401" and h4: "\<not> truthy (getItem (localStorage w) ''refresh_token'')"
    by blast+
  note eq = api_no_refresh_token [OF h1 h2 h3 h4]
  show "session_cleared (fst (api E w cfg))
   \<and> wire (fst (api E w cfg)) = wire w @ [first_exchange w cfg]
   \<and> toasts (fst (api E w cfg)) = toasts w @ [''Session expired. Please log in again.'']
   \<and> snd (api E w cfg)
       = Inl (AxiosError ((outgoing w cfg)\<lparr>retry := True\<rparr>) (Some r1) (status_message 401))"
    unfolding eq by (simp add: session_cleared_end_session end_session_simps)
qed

theorem no_refresh_token_ends_session_witness:
  "\<not> retry demo_request
   \<and> server env_refresh_ok (wire demo_world_no_refresh)
        (first_exchange demo_world_no_refresh demo_request) = Answer unauthorized
   \<and> status unauthorized = 401
   \<and> \<not> truthy (getItem (localStorage demo_world_no_refresh) ''refresh_token'')
   \<and> session_cleared (fst (api env_refresh_ok demo_world_no_refresh demo_request))
   \<and> wire (fst (api env_refresh_ok demo_world_no_refresh demo_request))
        = [first_exchange demo_world_no_refresh demo_request]
   \<and> toasts (fst (api env_refresh_ok demo_world_no_refresh demo_request))
        = [''Session expired. Please log in again.'']
   \<and> snd (api env_refresh_ok demo_world_no_refresh demo_request)
        = Inl (AxiosError ((outgoing demo_world_no_refresh demo_request)\<lparr>retry := True\<rparr>)
                 (Some unauthorized) (status_message 401))"
  using no_refresh_token_ends_session
          [of demo_request env_refresh_ok demo_world_no_refresh unauthorized]
  by (simp add: via_simps demo_server_simps demo_response_simps demo_world_simps truthy_def
        del: api.simps)

text \<open>
  C3, as amended. When a request without the retry marker is answered with a 401, a
  non-empty refresh token is stored and the refresh exchange fails, the auth slice is
  reset and both stored credentials are removed, the wire holds the request and the
  refresh and nothing else (no retry), the caller is rejected with the refresh error
  itself, and the one toast shown is the refresh error's text: the \<^verbatim>\<open>error\<close> field of
  the answer or \<^verbatim>\<open>Token refresh failed.\<close> when there is an answer, the error's message
  otherwise.
\<close>

theorem refresh_failure_ends_session:
  "\<not> retry cfg \<and> server E (wire w) (first_exchange w cfg) = Answer r1 \<and> status r1 = 401
     \<and> getItem (localStorage w) ''refresh_token'' = Some rt \<and> rt \<noteq> []
     \<and> settle (refresh_request E rt)
          (server E (wire w @ [first_exchange w cfg]) (refresh_exchange E rt)) = Inl e \<longrightarrow>
   session_cleared (fst (api E w cfg))
   \<and> wire (fst (api E w cfg)) = wire w @ [first_exchange w cfg, refresh_exchange E rt]
   \<and> snd (api E w cfg) = Inl e
   \<and> toasts (fst (api E w cfg)) = toasts w @ [refresh_toast e]"
proof
  assume "\<not> retry cfg \<and> server E (wire w) (first_exchange w cfg) = Answer r1 \<and> status r1 = 401
     \<and> getItem (localStorage w) ''refresh_token'' = Some rt \<and> rt \<noteq> []
     \<and> settle (refresh_request E rt)
          (server E (wire w @ [first_exchange w cfg]) (refresh_exchange E rt)) = Inl e"
  then have h1: "\<not> retry cfg" and h2: "server E (wire w) (first_exchange w cfg) = Answer r1"
    and h3: "status r1 = 401" and h4: "getItem (localStorage w) ''refresh_token'' = Some rt"
    and h5: "rt \<noteq> []"
    and h6: "settle (refresh_request E rt)
          (server E (wire w @ [first_exchange w cfg]) (refresh_exchange E rt)) = Inl e"
    by blast+
  note eq = api_refresh_failed [OF h1 h2 h3 h4 h5 h6]
  show "session_cleared (fst (api E w cfg))
   \<and> wire (fst (api E w cfg)) = wire w @ [first_exchange w cfg, refresh_exchange E rt]
   \<and> snd (api E w cfg) = Inl e
   \<and> toasts (fst (api E w cfg)) = toasts w @ [refresh_toast e]"
    unfolding eq by (simp add: session_cleared_end_session end_session_simps)
qed

theorem refresh_failure_ends_session_witness:
  "\<not> retry demo_request
   \<and> server env_refresh_denied (wire demo_world) (first_exchange demo_world demo_request)
        = Answer unauthorized
   \<and> status unauthorized = 401
   \<and> getItem (localStorage demo_world) ''refresh_token'' = Some ''xyz''
   \<and> settle (refresh_request env_refresh_denied ''xyz'')
        (server env_refresh_denied (wire demo_world @ [first_exchange demo_world demo_request])
           (refresh_exchange env_refresh_denied ''xyz''))
        = Inl (AxiosError (refresh_request env_refresh_denied ''xyz'') (Some forbidden)
                 (status_message 403))
   \<and> session_cleared (fst (api env_refresh_denied demo_world demo_request))
   \<and> wire (fst (api env_refresh_denied demo_world demo_request))
        = [first_exchange demo_world demo_request, refresh_exchange env_refresh_denied ''xyz'']
   \<and> snd (api env_refresh_denied demo_world demo_request)
        = Inl (AxiosError (refresh_request env_refresh_denied ''xyz'') (Some forbidden)
                 (status_message 403))
   \<and> toasts (fst (api env_refresh_denied demo_world demo_request)) = [''Token refresh failed.'']"
  using refresh_failure_ends_session
          [of demo_request env_refresh_denied demo_world unauthorized "''xyz''"
              "AxiosError (refresh_request env_refresh_denied ''xyz'') (Some forbidden)
                 (status_message 403)"]
  by (simp add: via_simps demo_server_simps demo_settle_simps demo_response_simps
        demo_world_simps js_or_def truthy_def del: api.simps)

text \<open>
  C3 as stated fails in its session-expired indication: when the refresh is refused
  with a 403, the only toast is \<^verbatim>\<open>Token refresh failed.\<close> and the rejection is the
  refresh's own error; the session-expired message is not shown.
\<close>

theorem refresh_failure_toast_counterexample:
  "server env_refresh_denied (wire demo_world) (first_exchange demo_world demo_request)
        = Answer unauthorized
   \<and> status unauthorized = 401
   \<and> getItem (localStorage demo_world) ''refresh_token'' = Some ''xyz''
   \<and> server env_refresh_denied (wire demo_world @ [first_exchange demo_world demo_request])
        (refresh_exchange env_refresh_denied ''xyz'') = Answer forbidden
   \<and> status forbidden = 403
   \<and> toasts (fst (api env_refresh_denied demo_world demo_request)) = [''Token refresh failed.'']
   \<and> ''Session expired. Please log in again.''
        \<notin> set (toasts (fst (api env_refresh_denied demo_world demo_request)))
   \<and> snd (api env_refresh_denied demo_world demo_request)
        = Inl (AxiosError (refresh_request env_refresh_denied ''xyz'') (Some forbidden)
                 (status_message 403))"
  using api_refresh_failed
          [of demo_request env_refresh_denied demo_world unauthorized "''xyz''"
              "AxiosError (refresh_request env_refresh_denied ''xyz'') (Some forbidden)
                 (status_message 403)"]
  by (simp add: via_simps demo_server_simps demo_settle_simps demo_response_simps
        demo_world_simps js_or_def truthy_def end_session_simps del: api.simps)

section \<open>The Authorization header\<close>

lemma api_wire_first:
  "\<exists>rest. wire (fst (api E w cfg)) = wire w @ first_exchange w cfg # rest"
  using api_extends [of w E cfg] unfolding extends_def by blast

text \<open>
  What the request interceptor does by itself: for a stored token that is not empty it
  sets the Authorization header to \<^verbatim>\<open>Bearer <token>\<close>, and otherwise it returns the
  request as it got it.
\<close>

lemma request_interceptor_cases:
  "(getItem ls ''token'' = Some t \<and> t \<noteq> [] \<longrightarrow>
      headers (request_interceptor ls cfg) ''Authorization'' = Some (''Bearer '' @ t))
   \<and> (\<not> truthy (getItem ls ''token'') \<longrightarrow> request_interceptor ls cfg = cfg)"
  by (simp add: request_interceptor_def truthy_def bearer_def js_string_of_def Let_def)

lemma handleLogout_simps:
  "localStorage (handleLogout w) = clearAuthData (localStorage w)"
  "defaults_common (handleLogout w) = defaults_common w"
  "wire (handleLogout w) = wire w"
  "auth (handleLogout w) = \<lparr>user = None, token = None, isAuthenticated = False\<rparr>"
  by (simp_all add: handleLogout_def dispatch_logout_def logout_def)

text \<open>
  C6 fails on the code. After a successful refresh the response interceptor also writes
  \<^verbatim>\<open>Bearer <new token>\<close> into \<^verbatim>\<open>api.defaults.headers.common\<close>, and no logout clears it.
  So after a request that was refreshed and a logout from the header, the session is
  cleared and no access token is stored, and yet a request that brings no Authorization
  header of its own goes on the wire with \<^verbatim>\<open>Bearer <new token>\<close>.
\<close>

theorem default_header_outlives_logout:
  "\<not> retry cfg \<and> server E (wire w) (first_exchange w cfg) = Answer r1 \<and> status r1 = 401
     \<and> getItem (localStorage w) ''refresh_token'' = Some rt \<and> rt \<noteq> []
     \<and> server E (wire w @ [first_exchange w cfg]) (refresh_exchange E rt) = Answer r2
     \<and> 200 \<le> status r2 \<and> status r2 < 300
     \<and> headers cfg' ''Authorization'' = None \<longrightarrow>
   getItem (localStorage (handleLogout (fst (api E w cfg)))) ''token'' = None
   \<and> session_cleared (handleLogout (fst (api E w cfg)))
   \<and> headers (outgoing (handleLogout (fst (api E w cfg))) cfg') ''Authorization''
       = Some (bearer (access_token (data r2)))
   \<and> (\<exists>rest. wire (fst (api E (handleLogout (fst (api E w cfg))) cfg'))
         = wire (handleLogout (fst (api E w cfg)))
           @ \<lparr>via = ViaApi, request = outgoing (handleLogout (fst (api E w cfg))) cfg'\<rparr> # rest)"
proof
  assume h: "\<not> retry cfg \<and> server E (wire w) (first_exchange w cfg) = Answer r1 \<and> status r1 = 401
     \<and> getItem (localStorage w) ''refresh_token'' = Some rt \<and> rt \<noteq> []
     \<and> server E (wire w @ [first_exchange w cfg]) (refresh_exchange E rt) = Answer r2
     \<and> 200 \<le> status r2 \<and> status r2 < 300
     \<and> headers cfg' ''Authorization'' = None"
  then have h1: "\<not> retry cfg" and h2: "server E (wire w) (first_exchange w cfg) = Answer r1"
    and h3: "status r1 = 401" and h4: "getItem (localStorage w) ''refresh_token'' = Some rt"
    and h5: "rt \<noteq> []"
    and a1: "server E (wire w @ [first_exchange w cfg]) (refresh_exchange E rt) = Answer r2"
    and a2: "200 \<le> status r2" and a3: "status r2 < 300"
    and c: "headers cfg' ''Authorization'' = None"
    by blast+
  let ?w1 = "fst (api E w cfg)"
  let ?w2 = "handleLogout ?w1"
  note eq = api_refresh_ok [OF h1 h2 h3 h4 h5 a1 a2 a3]
  have d: "defaults_common ?w2 ''Authorization'' = Some (bearer (access_token (data r2)))"
    unfolding eq by (simp add: handleLogout_simps)
  have t: "getItem (localStorage ?w2) ''token'' = None"
    by (simp add: handleLogout_simps clearAuthData_def getItem_simps TOKEN_KEY_def)
  have sc: "session_cleared ?w2"
    by (simp add: session_cleared_def handleLogout_simps clearAuthData_def getItem_simps)
  have og: "headers (outgoing ?w2 cfg') ''Authorization'' = Some (bearer (access_token (data r2)))"
    using t d c
    by (simp add: outgoing_def request_interceptor_def merge_defaults_def truthy_def Let_def
          map_add_def)
  have wf: "\<exists>rest. wire (fst (api E ?w2 cfg'))
         = wire ?w2 @ \<lparr>via = ViaApi, request = outgoing ?w2 cfg'\<rparr> # rest"
    using api_wire_first [of E ?w2 cfg'] by (simp only: first_exchange_def)
  show "getItem (localStorage ?w2) ''token'' = None
   \<and> session_cleared ?w2
   \<and> headers (outgoing ?w2 cfg') ''Authorization'' = Some (bearer (access_token (data r2)))
   \<and> (\<exists>rest. wire (fst (api E ?w2 cfg'))
         = wire ?w2 @ \<lparr>via = ViaApi, request = outgoing ?w2 cfg'\<rparr> # rest)"
    using t sc og wf by blast
qed

theorem default_header_outlives_logout_witness:
  "\<not> retry demo_request
   \<and> server env_refresh_ok (wire demo_world) (first_exchange demo_world demo_request)
        = Answer unauthorized
   \<and> status unauthorized = 401
   \<and> getItem (localStorage demo_world) ''refresh_token'' = Some ''xyz''
   \<and> server env_refresh_ok (wire demo_world @ [first_exchange demo_world demo_request])
        (refresh_exchange env_refresh_ok ''xyz'') = Answer fresh_token
   \<and> status fresh_token = 200
   \<and> headers demo_request ''Authorization'' = None
   \<and> getItem (localStorage (handleLogout (fst (api env_refresh_ok demo_world demo_request))))
        ''token'' = None
   \<and> session_cleared (handleLogout (fst (api env_refresh_ok demo_world demo_request)))
   \<and> headers (outgoing (handleLogout (fst (api env_refresh_ok demo_world demo_request)))
        demo_request) ''Authorization'' = Some ''Bearer new''"
proof -
  have c: "headers demo_request ''Authorization'' = None"
    by (simp add: demo_request_def)
  have b: "bearer (Some ''new'') = ''Bearer new''"
    by (simp add: bearer_def js_string_of_def)
  show ?thesis
    using default_header_outlives_logout [of demo_request env_refresh_ok demo_world unauthorized
            "''xyz''" fresh_token demo_request] c b
    by (simp add: via_simps demo_server_simps demo_response_simps demo_world_simps
          del: api.simps)
qed

text \<open>
  C7 fails on the code. \<^verbatim>\<open>refreshAccessToken\<close> passes the refresh token in the headers
  of \<^verbatim>\<open>api.post\<close>, and the request interceptor of \<^verbatim>\<open>api\<close> then overwrites the header:
  whenever a non-empty access token is stored beside the refresh token, the request to
  \<^verbatim>\<open>/refresh\<close> goes on the wire with \<^verbatim>\<open>Bearer <access token>\<close>. (The refresh that the
  response interceptor runs itself goes through the global \<^verbatim>\<open>axios\<close> and does carry the
  refresh token.)
\<close>

theorem refreshAccessToken_sends_access_token:
  "getItem (localStorage w) ''token'' = Some t \<and> t \<noteq> []
     \<and> getItem (localStorage w) ''refresh_token'' = Some rt \<and> rt \<noteq> [] \<longrightarrow>
   (\<exists>rest. wire (fst (refreshAccessToken E w))
      = wire w @ \<lparr>via = ViaApi,
                  request = \<lparr>url = ''/refresh'', http_method = ''post'', body = [],
                             headers = (defaults_common w)(''Authorization'' \<mapsto> ''Bearer '' @ t),
                             retry = False\<rparr>\<rparr> # rest)"
proof
  assume h: "getItem (localStorage w) ''token'' = Some t \<and> t \<noteq> []
     \<and> getItem (localStorage w) ''refresh_token'' = Some rt \<and> rt \<noteq> []"
  let ?c = "\<lparr>url = ''/refresh'', http_method = ''post'', body = [],
             headers = [''Authorization'' \<mapsto> bearer (Some rt)], retry = False\<rparr>"
  have fst_eq: "fst (refreshAccessToken E w) = fst (api E w ?c)"
    using h by (simp add: refreshAccessToken_def api_post_def truthy_def Let_def
                  split: prod.splits sum.splits del: api.simps)
  have og: "outgoing w ?c = \<lparr>url = ''/refresh'', http_method = ''post'', body = [],
                             headers = (defaults_common w)(''Authorization'' \<mapsto> ''Bearer '' @ t),
                             retry = False\<rparr>"
    using h by (simp add: outgoing_def merge_defaults_def request_interceptor_def truthy_def
                  bearer_def js_string_of_def Let_def)
  show "\<exists>rest. wire (fst (refreshAccessToken E w))
      = wire w @ \<lparr>via = ViaApi,
                  request = \<lparr>url = ''/refresh'', http_method = ''post'', body = [],
                             headers = (defaults_common w)(''Authorization'' \<mapsto> ''Bearer '' @ t),
                             retry = False\<rparr>\<rparr> # rest"
    using api_wire_first [of E w ?c] unfolding fst_eq first_exchange_def og .
qed

theorem refreshAccessToken_sends_access_token_witness:
  "getItem (localStorage demo_world) ''token'' = Some ''old''
   \<and> getItem (localStorage demo_world) ''refresh_token'' = Some ''xyz''
   \<and> (\<exists>rest. wire (fst (refreshAccessToken env_all_ok demo_world))
         = \<lparr>via = ViaApi,
            request = \<lparr>url = ''/refresh'', http_method = ''post'', body = [],
                       headers = [''Authorization'' \<mapsto> ''Bearer old''], retry = False\<rparr>\<rparr> # rest)
   \<and> ''Bearer old'' \<noteq> bearer (Some ''xyz'')"
proof -
  have d: "defaults_common demo_world = Map.empty"
    by (simp add: demo_world_def)
  show ?thesis
    using refreshAccessToken_sends_access_token [of demo_world "''old''" "''xyz''" env_all_ok]
    by (simp add: demo_world_simps d bearer_def js_string_of_def del: api.simps)
qed

section \<open>The refresh token is never written\<close>

text \<open>
  C4. Every operation of the client leaves every storage key other than the access
  token's and the serialized user's as it was, so the key \<^verbatim>\<open>refresh_token\<close> holds after
  any sequence of operations what it held before. In an execution that starts without
  a (non-empty) refresh token, no refresh exchange is ever put on the wire, and the
  response interceptor, given a 401 for a request without the retry marker, takes the
  logout branch: it ends the session with the session-expired toast and rejects with
  the 401 error.
\<close>

theorem refresh_token_never_written:
  "(k \<noteq> TOKEN_KEY \<and> k \<noteq> USER_KEY \<longrightarrow>
      getItem (localStorage (step S P E w x)) k = getItem (localStorage w) k)
   \<and> getItem (localStorage (run S P E w xs)) ''refresh_token''
       = getItem (localStorage w) ''refresh_token''
   \<and> (\<not> truthy (getItem (localStorage w) ''refresh_token'') \<longrightarrow>
        (\<exists>new. wire (run S P E w xs) = wire w @ new \<and> refresh_attempts new = [])
        \<and> (status r = 401 \<and> \<not> retry c \<longrightarrow>
             response_rejected E (run S P E w xs) (AxiosError c (Some r) m)
               = (end_session (run S P E w xs) ''Session expired. Please log in again.'',
                  Inl (AxiosError (c\<lparr>retry := True\<rparr>) (Some r) m))))"
proof -
  obtain a where a: "extends w (step S P E w x) a"
    using step_extends by blast
  obtain b where b: "extends w (run S P E w xs) b"
    using run_extends by blast
  have frame: "getItem (localStorage (run S P E w xs)) ''refresh_token''
                 = getItem (localStorage w) ''refresh_token''"
    by (rule extends_frame [OF b]) (simp_all add: refresh_token_keys)
  have one: "k \<noteq> TOKEN_KEY \<and> k \<noteq> USER_KEY \<longrightarrow>
      getItem (localStorage (step S P E w x)) k = getItem (localStorage w) k"
    using extends_frame [OF a] by blast
  have two: "\<not> truthy (getItem (localStorage w) ''refresh_token'') \<longrightarrow>
        (\<exists>new. wire (run S P E w xs) = wire w @ new \<and> refresh_attempts new = [])"
    using b unfolding extends_def by blast
  have three: "\<not> truthy (getItem (localStorage w) ''refresh_token'') \<longrightarrow>
       status r = 401 \<and> \<not> retry c \<longrightarrow>
             response_rejected E (run S P E w xs) (AxiosError c (Some r) m)
               = (end_session (run S P E w xs) ''Session expired. Please log in again.'',
                  Inl (AxiosError (c\<lparr>retry := True\<rparr>) (Some r) m))"
  proof (intro impI)
    assume nt: "\<not> truthy (getItem (localStorage w) ''refresh_token'')"
      and h: "status r = 401 \<and> \<not> retry c"
    have "\<not> truthy (getItem (localStorage (run S P E w xs)) ''refresh_token'')"
      using nt by (simp add: frame)
    then show "response_rejected E (run S P E w xs) (AxiosError c (Some r) m)
               = (end_session (run S P E w xs) ''Session expired. Please log in again.'',
                  Inl (AxiosError (c\<lparr>retry := True\<rparr>) (Some r) m))"
      using h by (intro rejected_no_token) blast+
  qed
  show ?thesis
    using one frame two three by blast
qed

theorem refresh_token_never_written_witness:
  "''refresh_token'' \<noteq> TOKEN_KEY \<and> ''refresh_token'' \<noteq> USER_KEY
   \<and> getItem (localStorage (step demo_stringify demo_parse env_refresh_ok demo_world_no_refresh
          (Submit LoginForm [] ''a@b.com'' ''secret''))) ''refresh_token'' = None
   \<and> \<not> truthy (getItem (localStorage demo_world_no_refresh) ''refresh_token'')
   \<and> getItem (localStorage (run demo_stringify demo_parse env_refresh_ok demo_world_no_refresh
          demo_session)) ''refresh_token'' = None
   \<and> (\<exists>new. wire (run demo_stringify demo_parse env_refresh_ok demo_world_no_refresh demo_session)
                = new \<and> refresh_attempts new = [])
   \<and> status unauthorized = 401 \<and> \<not> retry demo_request
   \<and> response_rejected env_refresh_ok
        (run demo_stringify demo_parse env_refresh_ok demo_world_no_refresh demo_session)
        (AxiosError demo_request (Some unauthorized) [])
      = (end_session
           (run demo_stringify demo_parse env_refresh_ok demo_world_no_refresh demo_session)
           ''Session expired. Please log in again.'',
         Inl (AxiosError (demo_request\<lparr>retry := True\<rparr>) (Some unauthorized) []))"
  using refresh_token_never_written
          [of "''refresh_token''" demo_stringify demo_parse env_refresh_ok demo_world_no_refresh
              "Submit LoginForm [] ''a@b.com'' ''secret''" demo_session unauthorized
              demo_request "[]"]
  by (simp add: refresh_token_keys demo_world_simps demo_response_simps truthy_def
        del: api.simps response_rejected.simps step.simps run.simps)

end
